theory Spec2Isabelle
  imports Complex_Main "HOL-Library.Log_Nat" "HOL-Library.Multiset"
begin

section \<open>Python values used by the planner\<close>

subsection \<open>Exceptions\<close>

text \<open>
  Every exception the modelled code can raise is a value; a function that can raise
  returns \<open>error + 'a\<close> with \<open>Inl\<close> for the exception.
\<close>

datatype error =
    KeyError string
  | ValueError
  | IndexError
  | AttributeError
  | ZeroDivisionError
  | OverflowError

subsection \<open>Floats\<close>

text \<open>
  A Python \<open>float\<close> is an IEEE-754 binary64 number. Finite floats are rationals of
  the form \<open>m * 2^e\<close> with a 53-bit significand, and every arithmetic operation returns
  the exact rational result rounded to the nearest such number, ties to the even
  significand. \<open>f64\<close> is that rounding in the normal range: it has no bound on the
  exponent, hence no infinities, no NaN and no subnormal numbers. It is binary64 on
  magnitudes between \<open>2^-1022\<close> and \<open>2^1024\<close>, which is where every table entry and
  every calendar-derived week number lies; the assemblers are modelled with it.
  Binary64 with its whole range follows below, and \<open>round64_normal\<close> and
  \<open>progression_in_range\<close> relate the two.
\<close>

type_synonym float = rat

definition pow2 :: "int \<Rightarrow> rat" where
  "pow2 e = (if 0 \<le> e then 2 ^ nat e else 1 / 2 ^ nat (- e))"

definition ilog2 :: "rat \<Rightarrow> int" where
  "ilog2 x = (let (p, q) = quotient_of x; k = bitlen p - bitlen q
              in if pow2 k \<le> x then k else k - 1)"

definition round_half_even :: "rat \<Rightarrow> int" where
  "round_half_even q =
     (let n = \<lfloor>q\<rfloor>; r = q - of_int n
      in if r < 1 / 2 then n else if 1 / 2 < r then n + 1
         else if even n then n else n + 1)"

definition f64 :: "rat \<Rightarrow> float" where
  "f64 x = (if x = 0 then 0
            else let u = pow2 (ilog2 \<bar>x\<bar> - 52)
                 in sgn x * of_int (round_half_even (\<bar>x\<bar> / u)) * u)"

definition fadd :: "float \<Rightarrow> float \<Rightarrow> float" where
  "fadd x y = f64 (x + y)"

definition fmul :: "float \<Rightarrow> float \<Rightarrow> float" where
  "fmul x y = f64 (x * y)"

text \<open>
  \<open>float(n)\<close> for an int, as the mixed operators \<open>int * float\<close> and \<open>int + float\<close>
  apply it, in the normal range. Outside it, from \<open>2^1024\<close> on, Python raises
  OverflowError: that is \<open>int_to_binary64\<close> below.
\<close>

definition float_of_int :: "int \<Rightarrow> float" where
  "float_of_int n = f64 (of_int n)"

text \<open>
  \<open>a / b\<close> on two ints is the correctly rounded quotient. The planner divides by the
  literal 2 only, so the ZeroDivisionError of \<open>b = 0\<close> has no branch here.
\<close>

definition int_truediv :: "int \<Rightarrow> int \<Rightarrow> float" where
  "int_truediv a b = f64 (of_int a / of_int b)"

text \<open>\<open>int(x)\<close> on a float truncates toward zero.\<close>

definition py_int :: "float \<Rightarrow> int" where
  "py_int x = (if 0 \<le> x then \<lfloor>x\<rfloor> else \<lceil>x\<rceil>)"

subsection \<open>Binary64 with its whole range\<close>

text \<open>
  The floats of Python as they are: the finite ones, the two infinities and NaN. The two
  zeros are one value here, as \<open>==\<close> has them. A result is rounded with the exponent
  it has, but not below \<open>-1022\<close>: below \<open>2^-1022\<close> the spacing stays \<open>2^-1074\<close>
  (subnormal numbers). A rounded magnitude of \<open>2^1024\<close> or more is an infinity.
\<close>

datatype binary64 = Finite64 rat | PosInf64 | NegInf64 | NaN64

definition round64 :: "rat \<Rightarrow> binary64" where
  "round64 x =
     (if x = 0 then Finite64 0
      else let u = pow2 (max (ilog2 \<bar>x\<bar>) (- 1022) - 52);
               r = sgn x * of_int (round_half_even (\<bar>x\<bar> / u)) * u
           in if pow2 1024 \<le> \<bar>r\<bar> then (if x < 0 then NegInf64 else PosInf64)
              else Finite64 r)"

definition sign64 :: "binary64 \<Rightarrow> int" where
  "sign64 a = (case a of Finite64 x \<Rightarrow> (if x < 0 then - 1 else if x = 0 then 0 else 1)
                       | PosInf64 \<Rightarrow> 1 | NegInf64 \<Rightarrow> - 1 | NaN64 \<Rightarrow> 0)"

text \<open>\<open>a * b\<close> on floats never raises: infinity times zero is NaN, NaN stays NaN.\<close>

definition mul64 :: "binary64 \<Rightarrow> binary64 \<Rightarrow> binary64" where
  "mul64 a b =
     (case (a, b) of
        (Finite64 x, Finite64 y) \<Rightarrow> round64 (x * y)
      | _ \<Rightarrow> if a = NaN64 \<or> b = NaN64 \<or> sign64 a * sign64 b = 0 then NaN64
             else if 0 < sign64 a * sign64 b then PosInf64 else NegInf64)"

text \<open>\<open>a + b\<close> on floats never raises: the sum of the two infinities is NaN.\<close>

fun add64 :: "binary64 \<Rightarrow> binary64 \<Rightarrow> binary64" where
  "add64 (Finite64 x) (Finite64 y) = round64 (x + y)"
| "add64 NaN64 b = NaN64"
| "add64 a NaN64 = NaN64"
| "add64 PosInf64 NegInf64 = NaN64"
| "add64 NegInf64 PosInf64 = NaN64"
| "add64 PosInf64 b = PosInf64"
| "add64 a PosInf64 = PosInf64"
| "add64 NegInf64 b = NegInf64"
| "add64 a NegInf64 = NegInf64"

text \<open>\<open>float(n)\<close> for an int: OverflowError when the rounded value is not finite.\<close>

definition int_to_binary64 :: "int \<Rightarrow> error + binary64" where
  "int_to_binary64 n =
     (case round64 (of_int n) of Finite64 r \<Rightarrow> Inr (Finite64 r) | _ \<Rightarrow> Inl OverflowError)"

text \<open>\<open>a * n\<close> and \<open>n + a\<close> for a float \<open>a\<close> and an int \<open>n\<close>: the int is converted first.\<close>

definition mul_int64 :: "binary64 \<Rightarrow> int \<Rightarrow> error + binary64" where
  "mul_int64 a n = (case int_to_binary64 n of Inl e \<Rightarrow> Inl e | Inr f \<Rightarrow> Inr (mul64 a f))"

definition add_int64 :: "int \<Rightarrow> binary64 \<Rightarrow> error + binary64" where
  "add_int64 n a = (case int_to_binary64 n of Inl e \<Rightarrow> Inl e | Inr f \<Rightarrow> Inr (add64 f a))"

text \<open>
  \<open>a / b\<close> on two ints: the correctly rounded quotient, ZeroDivisionError for \<open>b = 0\<close>,
  OverflowError when the rounded quotient is not finite.
\<close>

definition int_truediv64 :: "int \<Rightarrow> int \<Rightarrow> error + binary64" where
  "int_truediv64 a b =
     (if b = 0 then Inl ZeroDivisionError
      else case round64 (of_int a / of_int b) of
             Finite64 r \<Rightarrow> Inr (Finite64 r)
           | _ \<Rightarrow> Inl OverflowError)"

text \<open>\<open>int(a)\<close>: truncation toward zero, OverflowError for an infinity, ValueError for NaN.\<close>

definition int_of_binary64 :: "binary64 \<Rightarrow> error + int" where
  "int_of_binary64 a =
     (case a of Finite64 x \<Rightarrow> Inr (py_int x)
              | PosInf64 \<Rightarrow> Inl OverflowError
              | NegInf64 \<Rightarrow> Inl OverflowError
              | NaN64 \<Rightarrow> Inl ValueError)"

subsection \<open>Strings of integers\<close>

definition digit_char :: "nat \<Rightarrow> char" where
  "digit_char d = char_of (48 + d)"

function show_nat :: "nat \<Rightarrow> string" where
  "show_nat n = (if n < 10 then [digit_char n] else show_nat (n div 10) @ [digit_char (n mod 10)])"
  by pat_completeness auto
termination
  by (relation "measure id") auto

declare show_nat.simps [simp del]

text \<open>\<open>str(i)\<close>, as an f-string prints an int.\<close>

definition show_int :: "int \<Rightarrow> string" where
  "show_int i = (if i < 0 then CHR ''-'' # show_nat (nat (- i)) else show_nat (nat i))"

definition is_digit :: "char \<Rightarrow> bool" where
  "is_digit c = ((48::nat) \<le> of_char c \<and> of_char c \<le> (57::nat))"

definition digits_value :: "string \<Rightarrow> nat" where
  "digits_value s = foldl (\<lambda>a c. 10 * a + (of_char c - 48)) 0 s"

text \<open>\<open>int(s)\<close> on a string: an optional sign and at least one decimal digit, else ValueError.\<close>

definition int_of_string :: "string \<Rightarrow> error + int" where
  "int_of_string s =
     (let (neg, ds) = (case s of c # r \<Rightarrow> if c = CHR ''-'' then (True, r)
                                      else if c = CHR ''+'' then (False, r) else (False, s)
                               | [] \<Rightarrow> (False, s))
      in if ds = [] \<or> \<not> list_all is_digit ds then Inl ValueError
         else Inr (if neg then - int (digits_value ds) else int (digits_value ds)))"

text \<open>\<open>s.split()[0]\<close>: the first run of non-blank characters, IndexError when there is none.\<close>

definition first_word :: "string \<Rightarrow> error + string" where
  "first_word s =
     (let t = dropWhile (\<lambda>c. c = CHR '' '') s
      in if t = [] then Inl IndexError else Inr (takeWhile (\<lambda>c. c \<noteq> CHR '' '') t))"

subsection \<open>Dictionaries\<close>

text \<open>
  A dict is an association list in insertion order. \<open>d.get(k, default)\<close> never raises;
  \<open>d[k]\<close> raises KeyError for a missing key (only string-keyed dicts are subscripted).
\<close>

definition dict_get :: "('k \<times> 'v) list \<Rightarrow> 'k \<Rightarrow> 'v \<Rightarrow> 'v" where
  "dict_get d k dflt = (case map_of d k of Some v \<Rightarrow> v | None \<Rightarrow> dflt)"

definition dict_item :: "(string \<times> 'v) list \<Rightarrow> string \<Rightarrow> error + 'v" where
  "dict_item d k = (case map_of d k of Some v \<Rightarrow> Inr v | None \<Rightarrow> Inl (KeyError k))"

definition dict_keys :: "('k \<times> 'v) list \<Rightarrow> 'k list" where
  "dict_keys d = map fst d"

section \<open>Data model (Exercise.py)\<close>

text \<open>
  \<open>NOT_A_MEMBER\<close> stands for a \<open>fitness_level\<close> field holding a value outside the
  enumeration, such as \<open>None\<close>: the dataclass does not check its fields, and the
  planner's tables give such a value a default entry.
\<close>

datatype FitnessLevel = BEGINNER | INTERMEDIATE | ADVANCED | NOT_A_MEMBER

datatype HealthCondition = KNEE_PAIN | BACK_PAIN | HEART_CONDITION | SHOULDER_INJURY

record UserProfile =
  age :: int
  height :: float
  weight :: float
  gender :: string
  fitness_level :: FitnessLevel
  health_conditions :: "HealthCondition list"
  goal :: string
  preferred_days :: int

record ExerciseDatabase =
  workout_types :: "(string \<times> string list) list"
  health_restrictions :: "(HealthCondition \<times> string list) list"
  equipment_mapping :: "(string \<times> string list) list"

definition ExerciseDatabase_init :: ExerciseDatabase where
  "ExerciseDatabase_init = \<lparr>
     workout_types = [
       (''Cardio'', [''Treadmill'', ''Cycling'', ''Swimming'', ''Rowing'', ''Elliptical'',
          ''Jump Rope'', ''Running'', ''Stair Climbing'', ''Boxing'', ''Kickboxing'',
          ''Dancing'', ''Mountain Climbers'', ''Burpees'', ''High Knees'']),
       (''Strength'', [''Squats'', ''Deadlifts'', ''Bench Press'', ''Shoulder Press'',
          ''Pull-ups'', ''Push-ups'', ''Lunges'', ''Dumbbell Rows'',
          ''Leg Press'', ''Tricep Dips'', ''Bicep Curls'', ''Plank Holds'',
          ''Romanian Deadlifts'', ''Hip Thrusts'', ''Face Pulls'']),
       (''Flexibility'', [''Yoga'', ''Pilates'', ''Dynamic Stretching'', ''Static Stretching'',
          ''Foam Rolling'', ''Mobility Work'', ''Cat-Cow Stretch'',
          ''Downward Dog'', ''Child's Pose'', ''Hamstring Stretch'',
          ''Hip Flexor Stretch'', ''Shoulder Rolls'', ''Spine Twists'']),
       (''HIIT'', [''Burpee Intervals'', ''Sprint Intervals'', ''Jump Rope Intervals'',
          ''Mountain Climber Intervals'', ''Squat Jumps'', ''Box Jumps'',
          ''Battle Ropes'', ''Kettlebell Swings'', ''Medicine Ball Slams''])],
     health_restrictions = [
       (KNEE_PAIN, [''Squats'', ''Lunges'', ''Box Jumps'', ''Jump Rope'',
          ''Stair Climbing'', ''Burpees'', ''Mountain Climbers'']),
       (BACK_PAIN, [''Deadlifts'', ''Romanian Deadlifts'', ''Shoulder Press'',
          ''Bench Press'', ''Good Mornings'']),
       (HEART_CONDITION, [''HIIT'', ''Sprint Intervals'', ''Burpee Intervals'',
          ''Box Jumps'', ''Battle Ropes'']),
       (SHOULDER_INJURY, [''Pull-ups'', ''Shoulder Press'', ''Bench Press'',
          ''Face Pulls'', ''Push-ups''])],
     equipment_mapping = [
       (''Treadmill'', [''Treadmill'']),
       (''Cycling'', [''Stationary Bike'']),
       (''Yoga'', [''Yoga Mat'']),
       (''Kettlebell Swings'', [''Kettlebell'']),
       (''Box Jumps'', [''Plyo Box'']),
       (''Deadlifts'', [''Barbell'', ''Weight Plates'']),
       (''Squats'', [''Barbell'', ''Weight Plates'']),
       (''Swimming'', [''Pool Access'']),
       (''Rowing'', [''Rowing Machine''])] \<rparr>"

record GoalData =
  primary_type :: string
  workout_split :: "(string \<times> float) list"
  intensity_range :: "(string \<times> string) list"

record WorkoutPlanner =
  exercise_db :: ExerciseDatabase
  goal_workout_mapping :: "(string \<times> GoalData) list"

definition WorkoutPlanner_init :: WorkoutPlanner where
  "WorkoutPlanner_init = \<lparr>
     exercise_db = ExerciseDatabase_init,
     goal_workout_mapping = [
       (''Weight Loss'', \<lparr>
          primary_type = ''Cardio'',
          workout_split = [(''Cardio'', f64 (50 / 100)), (''Strength'', f64 (30 / 100)),
                           (''HIIT'', f64 (20 / 100))],
          intensity_range = [(''Cardio'', ''65-75% max heart rate''),
                             (''Strength'', ''12-15 reps''),
                             (''HIIT'', ''30 seconds work/30 seconds rest'')] \<rparr>),
       (''Muscle Gain'', \<lparr>
          primary_type = ''Strength'',
          workout_split = [(''Strength'', f64 (70 / 100)), (''Cardio'', f64 (15 / 100)),
                           (''Flexibility'', f64 (15 / 100))],
          intensity_range = [(''Strength'', ''8-12 reps''),
                             (''Cardio'', ''20-30 minutes low intensity''),
                             (''Flexibility'', ''15-20 minutes'')] \<rparr>),
       (''Endurance'', \<lparr>
          primary_type = ''Cardio'',
          workout_split = [(''Cardio'', f64 (60 / 100)), (''Strength'', f64 (25 / 100)),
                           (''Flexibility'', f64 (15 / 100))],
          intensity_range = [(''Cardio'', ''60-70% max heart rate''),
                             (''Strength'', ''15-20 reps''),
                             (''Flexibility'', ''20-30 minutes'')] \<rparr>),
       (''Flexibility'', \<lparr>
          primary_type = ''Flexibility'',
          workout_split = [(''Flexibility'', f64 (60 / 100)), (''Strength'', f64 (25 / 100)),
                           (''Cardio'', f64 (15 / 100))],
          intensity_range = [(''Flexibility'', ''30-45 minutes''),
                             (''Strength'', ''12-15 reps''),
                             (''Cardio'', ''20-30 minutes low intensity'')] \<rparr>)] \<rparr>"

record Progression =
  volume_multiplier :: float
  intensity_multiplier :: float
  complexity_level :: int

text \<open>
  The dict a formatted exercise is: \<open>{name, sets, reps, rest}\<close> for Strength,
  \<open>{name, intervals, work_time, rest_time}\<close> for HIIT, \<open>{name, duration}\<close> otherwise.
\<close>

datatype ExerciseEntry =
    StrengthEntry string int int string
  | HIITEntry string int string string
  | TimedEntry string string

record DailyWorkout =
  dw_type :: string
  dw_intensity :: string
  dw_exercises :: "ExerciseEntry list"
  dw_duration :: string
  dw_required_equipment :: "string list"

record WeeklyPlan =
  progression_level :: Progression
  workouts :: "DailyWorkout list"

text \<open>A \<open>datetime\<close> is kept as its proleptic Gregorian ordinal (\<open>toordinal()\<close>), at midnight.\<close>

datatype datetime = Datetime (toordinal: int)

record WorkoutPlan =
  wp_user_profile :: UserProfile
  wp_start_date :: datetime
  wp_weeks :: "(string \<times> WeeklyPlan) list"

record DailyChallenge =
  ch_name :: string
  ch_date :: string
  ch_day_of_week :: string
  ch_type :: string
  ch_difficulty :: string
  ch_exercises :: "ExerciseEntry list"
  ch_duration :: string
  ch_required_equipment :: "string list"

section \<open>The random module\<close>

text \<open>
  The planner draws from the interpreter's global generator. Its state is passed
  explicitly; the generator itself is a parameter, one function per library call used:
  \<open>random.seed(s)\<close> replaces the state by one computed from the string alone,
  \<open>random.random()\<close> draws a float, \<open>random.choices(population, weights, k=1)[0]\<close> and
  \<open>random.sample(population, k)\<close> draw from a list.
\<close>

record 'g Random =
  rnd_seed :: "string \<Rightarrow> 'g"
  rnd_random :: "'g \<Rightarrow> float \<times> 'g"
  rnd_choices :: "'g \<Rightarrow> string list \<Rightarrow> float list \<Rightarrow> string \<times> 'g"
  rnd_sample :: "'g \<Rightarrow> string list \<Rightarrow> nat \<Rightarrow> string list \<times> 'g"

text \<open>
  \<open>random.choices\<close> rejects weights that do not match the population (ValueError),
  indexes the last cumulative weight, which an empty population lacks (IndexError), and
  rejects a total weight that is not positive (ValueError).
\<close>

definition py_choices ::
  "'g Random \<Rightarrow> 'g \<Rightarrow> string list \<Rightarrow> float list \<Rightarrow> (error + string) \<times> 'g" where
  "py_choices R g population weights =
     (if length weights \<noteq> length population then (Inl ValueError, g)
      else if weights = [] then (Inl IndexError, g)
      else if fadd (foldl fadd (hd weights) (tl weights)) 0 \<le> 0 then (Inl ValueError, g)
      else (case rnd_choices R g population weights of (t, g') \<Rightarrow> (Inr t, g')))"

text \<open>\<open>random.sample\<close> raises ValueError for a negative sample size or one larger than the population.\<close>

definition py_sample ::
  "'g Random \<Rightarrow> 'g \<Rightarrow> string list \<Rightarrow> int \<Rightarrow> (error + string list) \<times> 'g" where
  "py_sample R g population k =
     (if k < 0 \<or> int (length population) < k then (Inl ValueError, g)
      else (case rnd_sample R g population (nat k) of (xs, g') \<Rightarrow> (Inr xs, g')))"

text \<open>
  What the library documents of the two draws: \<open>choices\<close> returns a member of a
  non-empty population, \<open>sample\<close> returns \<open>k\<close> elements taken from distinct
  positions of the population.
\<close>

definition choices_in_population :: "'g Random \<Rightarrow> bool" where
  "choices_in_population R =
     (\<forall>g population weights.
        population \<noteq> [] \<longrightarrow> fst (rnd_choices R g population weights) \<in> set population)"

definition sample_without_replacement :: "'g Random \<Rightarrow> bool" where
  "sample_without_replacement R =
     (\<forall>g population k.
        k \<le> length population \<longrightarrow>
          length (fst (rnd_sample R g population k)) = k
          \<and> mset (fst (rnd_sample R g population k)) \<subseteq># mset population)"

text \<open>
  A generator to run the planner on concrete inputs: its state counts the draws, every
  draw is the least possible one.
\<close>

definition least_draws :: "nat Random" where
  "least_draws = \<lparr> rnd_seed = (\<lambda>s. 0),
                    rnd_random = (\<lambda>g. (0, Suc g)),
                    rnd_choices = (\<lambda>g population weights. (hd population, Suc g)),
                    rnd_sample = (\<lambda>g population k. (take k population, Suc g)) \<rparr>"

section \<open>WorkoutPlanner (Exercise.py)\<close>

definition calculate_difficulty_modifier :: "UserProfile \<Rightarrow> float" where
  "calculate_difficulty_modifier user =
     (let base_modifier = dict_get [(BEGINNER, f64 (8 / 10)), (INTERMEDIATE, f64 (11 / 10)),
                                    (ADVANCED, f64 (14 / 10))] (fitness_level user) (f64 1)
      in if health_conditions user \<noteq> [] then fmul base_modifier (f64 (9 / 10))
         else base_modifier)"

definition calculate_progression :: "int \<Rightarrow> float \<Rightarrow> Progression" where
  "calculate_progression week difficulty_modifier =
     (let base_volume = fadd (float_of_int 1) (fmul (f64 (1 / 10)) (float_of_int (week - 1)));
          base_intensity = fadd (float_of_int 1) (fmul (f64 (5 / 100)) (float_of_int (week - 1)));
          complexity = min 3 (1 + py_int (int_truediv (week - 1) 2))
      in \<lparr> volume_multiplier = fmul base_volume difficulty_modifier,
           intensity_multiplier = fmul base_intensity difficulty_modifier,
           complexity_level = complexity \<rparr>)"

text \<open>
  \<open>calculate_progression\<close> (lines 196-207) on binary64 with its whole range. The dict
  literal is evaluated in order: line 199 converts \<open>week - 1\<close> to a float first, and
  raises when it is too large; the two multiplications by the modifier cannot raise.
\<close>

record Progression64 =
  volume_multiplier64 :: binary64
  intensity_multiplier64 :: binary64
  complexity_level64 :: int

definition calculate_progression_binary64 :: "int \<Rightarrow> binary64 \<Rightarrow> error + Progression64" where
  "calculate_progression_binary64 week difficulty_modifier =
     (case mul_int64 (round64 (1 / 10)) (week - 1) of Inl e \<Rightarrow> Inl e | Inr v \<Rightarrow>
      case add_int64 1 v of Inl e \<Rightarrow> Inl e | Inr base_volume \<Rightarrow>
      case mul_int64 (round64 (5 / 100)) (week - 1) of Inl e \<Rightarrow> Inl e | Inr i \<Rightarrow>
      case add_int64 1 i of Inl e \<Rightarrow> Inl e | Inr base_intensity \<Rightarrow>
      case int_truediv64 (week - 1) 2 of Inl e \<Rightarrow> Inl e | Inr q \<Rightarrow>
      case int_of_binary64 q of Inl e \<Rightarrow> Inl e | Inr t \<Rightarrow>
        Inr \<lparr> volume_multiplier64 = mul64 base_volume difficulty_modifier,
              intensity_multiplier64 = mul64 base_intensity difficulty_modifier,
              complexity_level64 = min 3 (1 + t) \<rparr>)"

text \<open>The loop of \<open>select_workout_type\<close> over \<open>workout_split.items()\<close>, from a running sum.\<close>

fun walk_split :: "float \<Rightarrow> float \<Rightarrow> (string \<times> float) list \<Rightarrow> string option" where
  "walk_split rand cumulative [] = None"
| "walk_split rand cumulative ((workout_type, probability) # rest) =
     (let cumulative' = fadd cumulative probability
      in if rand \<le> cumulative' then Some workout_type
         else walk_split rand cumulative' rest)"

text \<open>\<open>select_workout_type\<close> after its draw \<open>rand = random.random()\<close>.\<close>

definition select_workout_type_at :: "float \<Rightarrow> (string \<times> float) list \<Rightarrow> error + string" where
  "select_workout_type_at rand split =
     (case walk_split rand (float_of_int 0) split of
        Some workout_type \<Rightarrow> Inr workout_type
      | None \<Rightarrow> (case dict_keys split of
                    [] \<Rightarrow> Inl IndexError
                  | k # _ \<Rightarrow> Inr k))"

definition select_workout_type ::
  "'g Random \<Rightarrow> 'g \<Rightarrow> (string \<times> float) list \<Rightarrow> (error + string) \<times> 'g" where
  "select_workout_type R g split =
     (case rnd_random R g of (rand, g') \<Rightarrow> (select_workout_type_at rand split, g'))"

text \<open>
  The health filter of both assemblers: for each condition in turn, a new list without
  the exercises that condition restricts.
\<close>

fun apply_health_filters ::
  "ExerciseDatabase \<Rightarrow> HealthCondition list \<Rightarrow> string list \<Rightarrow> string list" where
  "apply_health_filters db [] exercises_pool = exercises_pool"
| "apply_health_filters db (condition # conditions) exercises_pool =
     (let restricted = dict_get (health_restrictions db) condition []
      in apply_health_filters db conditions [e \<leftarrow> exercises_pool. e \<notin> set restricted])"

text \<open>
  The running sum the selection reaches at position \<open>i\<close> of the mapping, as the
  specification words it: the probabilities up to and including \<open>i\<close>, added in order.
\<close>

definition running_sum :: "(string \<times> float) list \<Rightarrow> nat \<Rightarrow> float" where
  "running_sum split i = foldl fadd (float_of_int 0) (map snd (take (Suc i) split))"

definition calculate_num_exercises :: "FitnessLevel \<Rightarrow> Progression \<Rightarrow> int" where
  "calculate_num_exercises level progression =
     (let base_exercises = dict_get [(BEGINNER, 4), (INTERMEDIATE, 5), (ADVANCED, 6)] level 3
      in py_int (fmul (float_of_int base_exercises) (volume_multiplier progression)))"

definition format_exercise ::
  "string \<Rightarrow> string \<Rightarrow> Progression \<Rightarrow> int \<Rightarrow> int \<Rightarrow> int \<Rightarrow> error + ExerciseEntry" where
  "format_exercise exercise workout_type progression exercise_index num_exercises total_duration_min =
     (if workout_type = ''Strength'' then
        Inr (StrengthEntry exercise
               (py_int (fmul (float_of_int 3) (volume_multiplier progression)))
               (py_int (fmul (float_of_int 10) (intensity_multiplier progression)))
               ''60-90 seconds'')
      else if workout_type = ''HIIT'' then
        Inr (HIITEntry exercise
               (py_int (fmul (float_of_int 6) (volume_multiplier progression)))
               ''30 seconds'' ''30 seconds'')
      else if num_exercises = 0 then Inl ZeroDivisionError
      else
        (let exercise_duration = total_duration_min div num_exercises;
             remainder = total_duration_min mod num_exercises;
             exercise_duration = (if exercise_index < remainder then exercise_duration + 1
                                  else exercise_duration)
         in Inr (TimedEntry exercise (show_int exercise_duration @ '' minutes''))))"

definition calculate_duration :: "string \<Rightarrow> FitnessLevel \<Rightarrow> string" where
  "calculate_duration workout_type level =
     (let base_duration = dict_get [(BEGINNER, 30), (INTERMEDIATE, 45), (ADVANCED, 60)] level 45
      in show_int (if workout_type \<in> set [''HIIT'', ''Cardio'']
                   then py_int (fmul (float_of_int base_duration) (f64 (8 / 10)))
                   else base_duration) @ '' minutes'')"

text \<open>
  \<open>get_required_equipment\<close> collects a set and returns \<open>list(equipment)\<close>. The list
  here has each name once, in the order of first insertion; Python fixes some order of
  its own, the same for equal sets built the same way within one process.
\<close>

definition get_required_equipment :: "ExerciseDatabase \<Rightarrow> string list \<Rightarrow> string list" where
  "get_required_equipment db exercises =
     foldl (\<lambda>equipment exercise.
              case map_of (equipment_mapping db) exercise of
                Some names \<Rightarrow> foldl (\<lambda>acc x. if x \<in> set acc then acc else acc @ [x]) equipment names
              | None \<Rightarrow> equipment)
           [] exercises"

text \<open>
  The loop \<open>for i, exercise in enumerate(selected_exercises)\<close> of both assemblers, from
  index \<open>i\<close>; \<open>num_exercises\<close> is \<open>len(selected_exercises)\<close>.
\<close>

fun format_loop ::
  "string \<Rightarrow> Progression \<Rightarrow> int \<Rightarrow> int \<Rightarrow> int \<Rightarrow> string list \<Rightarrow> error + ExerciseEntry list" where
  "format_loop workout_type progression num_exercises total_duration_min i [] = Inr []"
| "format_loop workout_type progression num_exercises total_duration_min i (exercise # rest) =
     (case format_exercise exercise workout_type progression i num_exercises total_duration_min of
        Inl e \<Rightarrow> Inl e
      | Inr entry \<Rightarrow>
          (case format_loop workout_type progression num_exercises total_duration_min (i + 1) rest of
             Inl e \<Rightarrow> Inl e
           | Inr entries \<Rightarrow> Inr (entry # entries)))"

definition format_exercises ::
  "string \<Rightarrow> Progression \<Rightarrow> int \<Rightarrow> string list \<Rightarrow> error + ExerciseEntry list" where
  "format_exercises workout_type progression total_duration_min selected_exercises =
     format_loop workout_type progression (int (length selected_exercises)) total_duration_min 0
       selected_exercises"

text \<open>\<open>int(total_duration.split()[0])\<close>.\<close>

definition duration_minutes :: "string \<Rightarrow> error + int" where
  "duration_minutes total_duration =
     (case first_word total_duration of Inl e \<Rightarrow> Inl e | Inr w \<Rightarrow> int_of_string w)"

text \<open>
  Lines 222-232 of \<open>generate_daily_workout\<close>: the category's list (KeyError for a
  category the catalog lacks), filtered, and replaced by one fallback exercise when the
  filter leaves nothing.
\<close>

definition workout_exercises_pool ::
  "WorkoutPlanner \<Rightarrow> string \<Rightarrow> UserProfile \<Rightarrow> error + string list" where
  "workout_exercises_pool self workout_type user =
     (case dict_item (workout_types (exercise_db self)) workout_type of
        Inl e \<Rightarrow> Inl e
      | Inr catalog_list \<Rightarrow>
          (let exercises_pool =
                 apply_health_filters (exercise_db self) (health_conditions user) catalog_list
           in Inr (if exercises_pool = []
                   then [if workout_type = ''Cardio'' then ''Low-Impact Walking''
                         else ''Bodyweight Isometric Holds'']
                   else exercises_pool)))"

definition generate_daily_workout ::
  "WorkoutPlanner \<Rightarrow> 'g Random \<Rightarrow> 'g \<Rightarrow> string \<Rightarrow> string \<Rightarrow> UserProfile \<Rightarrow> Progression
     \<Rightarrow> (error + DailyWorkout) \<times> 'g" where
  "generate_daily_workout self R g workout_type intensity user progression =
     (case workout_exercises_pool self workout_type user of
        Inl e \<Rightarrow> (Inl e, g)
      | Inr exercises_pool \<Rightarrow>
     (let num_exercises = calculate_num_exercises (fitness_level user) progression
      in case py_sample R g exercises_pool (min num_exercises (int (length exercises_pool))) of
           (Inl e, g') \<Rightarrow> (Inl e, g')
         | (Inr selected_exercises, g') \<Rightarrow>
     (let total_duration = calculate_duration workout_type (fitness_level user)
      in case duration_minutes total_duration of
           Inl e \<Rightarrow> (Inl e, g')
         | Inr total_duration_min \<Rightarrow>
     (case format_exercises workout_type progression total_duration_min selected_exercises of
        Inl e \<Rightarrow> (Inl e, g')
      | Inr formatted_exercises \<Rightarrow>
          (Inr \<lparr> dw_type = workout_type, dw_intensity = intensity,
                 dw_exercises = formatted_exercises, dw_duration = total_duration,
                 dw_required_equipment =
                   get_required_equipment (exercise_db self) selected_exercises \<rparr>, g')))))"

text \<open>The loop \<open>for day in range(user.preferred_days)\<close>, with \<open>n\<close> days left.\<close>

fun days_loop ::
  "WorkoutPlanner \<Rightarrow> 'g Random \<Rightarrow> GoalData \<Rightarrow> UserProfile \<Rightarrow> Progression \<Rightarrow> nat \<Rightarrow> 'g
     \<Rightarrow> (error + DailyWorkout list) \<times> 'g" where
  "days_loop self R goal_data user week_progression 0 g = (Inr [], g)"
| "days_loop self R goal_data user week_progression (Suc n) g =
     (case select_workout_type R g (workout_split goal_data) of
        (Inl e, g1) \<Rightarrow> (Inl e, g1)
      | (Inr workout_type, g1) \<Rightarrow>
     (case dict_item (intensity_range goal_data) workout_type of
        Inl e \<Rightarrow> (Inl e, g1)
      | Inr intensity \<Rightarrow>
     (case generate_daily_workout self R g1 workout_type intensity user week_progression of
        (Inl e, g2) \<Rightarrow> (Inl e, g2)
      | (Inr daily_workout, g2) \<Rightarrow>
     (case days_loop self R goal_data user week_progression n g2 of
        (Inl e, g3) \<Rightarrow> (Inl e, g3)
      | (Inr weekly_plan, g3) \<Rightarrow> (Inr (daily_workout # weekly_plan), g3)))))"

text \<open>The loop \<open>for week in range(1, weeks + 1)\<close>, over the week numbers left.\<close>

fun weeks_loop ::
  "WorkoutPlanner \<Rightarrow> 'g Random \<Rightarrow> GoalData \<Rightarrow> UserProfile \<Rightarrow> float \<Rightarrow> int list \<Rightarrow> 'g
     \<Rightarrow> (error + (string \<times> WeeklyPlan) list) \<times> 'g" where
  "weeks_loop self R goal_data user difficulty_modifier [] g = (Inr [], g)"
| "weeks_loop self R goal_data user difficulty_modifier (week # rest) g =
     (let week_progression = calculate_progression week difficulty_modifier
      in case days_loop self R goal_data user week_progression (nat (preferred_days user)) g of
           (Inl e, g1) \<Rightarrow> (Inl e, g1)
         | (Inr weekly_plan, g1) \<Rightarrow>
     (case weeks_loop self R goal_data user difficulty_modifier rest g1 of
        (Inl e, g2) \<Rightarrow> (Inl e, g2)
      | (Inr later, g2) \<Rightarrow>
          (Inr ((''Week '' @ show_int week,
                 \<lparr> progression_level = week_progression, workouts = weekly_plan \<rparr>) # later), g2)))"

text \<open>\<open>now\<close> is the value of \<open>datetime.now()\<close> at the call.\<close>

definition generate_workout_plan ::
  "WorkoutPlanner \<Rightarrow> 'g Random \<Rightarrow> datetime \<Rightarrow> 'g \<Rightarrow> UserProfile \<Rightarrow> int
     \<Rightarrow> (error + WorkoutPlan) \<times> 'g" where
  "generate_workout_plan self R now g user n_weeks =
     (let difficulty_modifier = calculate_difficulty_modifier user
      in case dict_item (goal_workout_mapping self) (goal user) of
           Inl e \<Rightarrow> (Inl e, g)
         | Inr goal_data \<Rightarrow>
             (case weeks_loop self R goal_data user difficulty_modifier [1..n_weeks] g of
                (Inl e, g') \<Rightarrow> (Inl e, g')
              | (Inr ws, g') \<Rightarrow>
                  (Inr \<lparr> wp_user_profile = user, wp_start_date = now, wp_weeks = ws \<rparr>, g')))"

section \<open>Dates\<close>

text \<open>
  The calendar arithmetic of the \<open>datetime\<close> module on ordinals: day 1 is 0001-01-01
  and the last representable day is 9999-12-31.
\<close>

definition MAXORDINAL :: int where
  "MAXORDINAL = 3652059"

definition is_leap :: "int \<Rightarrow> bool" where
  "is_leap year = (year mod 4 = 0 \<and> (year mod 100 \<noteq> 0 \<or> year mod 400 = 0))"

definition DAYS_IN_MONTH :: "int list" where
  "DAYS_IN_MONTH = [-1, 31, 28, 31, 30, 31, 30, 31, 31, 30, 31, 30, 31]"

definition DAYS_BEFORE_MONTH :: "int list" where
  "DAYS_BEFORE_MONTH = [-1, 0, 31, 59, 90, 120, 151, 181, 212, 243, 273, 304, 334]"

definition ymd2ord :: "int \<Rightarrow> int \<Rightarrow> int \<Rightarrow> int" where
  "ymd2ord year month day =
     (let y = year - 1
      in y * 365 + y div 4 - y div 100 + y div 400
         + DAYS_BEFORE_MONTH ! nat month + (if 2 < month \<and> is_leap year then 1 else 0)
         + day)"

definition ord2ymd :: "int \<Rightarrow> int \<times> int \<times> int" where
  "ord2ymd ordinal =
     (let n = ordinal - 1;
          n400 = n div 146097; n = n mod 146097;
          n100 = n div 36524; n = n mod 36524;
          n4 = n div 1461; n = n mod 1461;
          n1 = n div 365; n = n mod 365;
          year = n400 * 400 + 1 + n100 * 100 + n4 * 4 + n1
      in if n1 = 4 \<or> n100 = 4 then (year - 1, 12, 31)
         else
           (let leapyear = (n1 = 3 \<and> (n4 \<noteq> 24 \<or> n100 = 3));
                month = (n + 50) div 32;
                preceding = DAYS_BEFORE_MONTH ! nat month
                            + (if 2 < month \<and> leapyear then 1 else 0)
            in if n < preceding
               then (let month' = month - 1;
                         preceding' = preceding - (DAYS_IN_MONTH ! nat month'
                                        + (if month' = 2 \<and> leapyear then 1 else 0))
                     in (year, month', n - preceding' + 1))
               else (year, month, n - preceding + 1)))"

text \<open>\<open>date + timedelta(days=n)\<close>: OverflowError outside the representable days.\<close>

definition add_days :: "datetime \<Rightarrow> int \<Rightarrow> error + datetime" where
  "add_days date n =
     (let ordinal = toordinal date + n
      in if 0 < ordinal \<and> ordinal \<le> MAXORDINAL then Inr (Datetime ordinal)
         else Inl OverflowError)"

text \<open>\<open>(a - b).days\<close>.\<close>

definition days_between :: "datetime \<Rightarrow> datetime \<Rightarrow> int" where
  "days_between a b = toordinal a - toordinal b"

definition weekday :: "datetime \<Rightarrow> int" where
  "weekday date = (toordinal date + 6) mod 7"

definition two_digits :: "int \<Rightarrow> string" where
  "two_digits n = (if n < 10 then CHR ''0'' # show_int n else show_int n)"

text \<open>\<open>strftime\<close> with the three formats the planner uses: \<open>%Y%m%d\<close>, \<open>%Y-%m-%d\<close>, \<open>%A\<close>.\<close>

definition strftime_Ymd :: "datetime \<Rightarrow> string" where
  "strftime_Ymd date =
     (case ord2ymd (toordinal date) of (y, m, d) \<Rightarrow> show_int y @ two_digits m @ two_digits d)"

definition strftime_Y_m_d :: "datetime \<Rightarrow> string" where
  "strftime_Y_m_d date =
     (case ord2ymd (toordinal date) of
        (y, m, d) \<Rightarrow> show_int y @ ''-'' @ two_digits m @ ''-'' @ two_digits d)"

definition strftime_A :: "datetime \<Rightarrow> string" where
  "strftime_A date =
     [''Monday'', ''Tuesday'', ''Wednesday'', ''Thursday'', ''Friday'', ''Saturday'', ''Sunday'']
       ! nat (weekday date)"

section \<open>Daily challenges\<close>

text \<open>A fitness level inside an f-string, and its \<open>.value\<close> (absent outside the enumeration).\<close>

definition format_level :: "FitnessLevel \<Rightarrow> string" where
  "format_level level =
     (case level of BEGINNER \<Rightarrow> ''FitnessLevel.BEGINNER''
                  | INTERMEDIATE \<Rightarrow> ''FitnessLevel.INTERMEDIATE''
                  | ADVANCED \<Rightarrow> ''FitnessLevel.ADVANCED''
                  | NOT_A_MEMBER \<Rightarrow> ''None'')"

definition level_value :: "FitnessLevel \<Rightarrow> error + string" where
  "level_value level =
     (case level of BEGINNER \<Rightarrow> Inr ''Beginner''
                  | INTERMEDIATE \<Rightarrow> Inr ''Intermediate''
                  | ADVANCED \<Rightarrow> Inr ''Advanced''
                  | NOT_A_MEMBER \<Rightarrow> Inl AttributeError)"

text \<open>Lines 352-359 of \<open>generate_daily_challenge\<close>: the same filter, another fallback.\<close>

definition challenge_exercises_pool ::
  "WorkoutPlanner \<Rightarrow> string \<Rightarrow> UserProfile \<Rightarrow> error + string list" where
  "challenge_exercises_pool self workout_type user =
     (case dict_item (workout_types (exercise_db self)) workout_type of
        Inl e \<Rightarrow> Inl e
      | Inr catalog_list \<Rightarrow>
          (let exercises_pool =
                 apply_health_filters (exercise_db self) (health_conditions user) catalog_list
           in Inr (if exercises_pool = [] then [''Low-Impact Alternative'']
                   else exercises_pool)))"

text \<open>The table of lines 362-366.\<close>

definition challenge_exercise_count :: "FitnessLevel \<Rightarrow> int" where
  "challenge_exercise_count level =
     dict_get [(BEGINNER, 2), (INTERMEDIATE, 3), (ADVANCED, 4)] level 2"

text \<open>\<open>[d[k] for k in ks]\<close>.\<close>

fun dict_items :: "(string \<times> 'v) list \<Rightarrow> string list \<Rightarrow> error + 'v list" where
  "dict_items d [] = Inr []"
| "dict_items d (k # ks) =
     (case dict_item d k of
        Inl e \<Rightarrow> Inl e
      | Inr v \<Rightarrow> (case dict_items d ks of Inl e \<Rightarrow> Inl e | Inr vs \<Rightarrow> Inr (v # vs)))"

definition generate_daily_challenge ::
  "WorkoutPlanner \<Rightarrow> 'g Random \<Rightarrow> datetime \<Rightarrow> 'g \<Rightarrow> UserProfile \<Rightarrow> datetime option
     \<Rightarrow> (error + DailyChallenge) \<times> 'g" where
  "generate_daily_challenge self R now g user specific_date =
     (let date = (case specific_date of Some d \<Rightarrow> d | None \<Rightarrow> now);
          g1 = rnd_seed R (show_int (age user) @ format_level (fitness_level user)
                           @ strftime_Ymd date);
          day = days_between date (Datetime (ymd2ord 2025 1 1)) + 1;
          week = (day - 1) div 7 + 1;
          difficulty = calculate_difficulty_modifier user
      in case dict_item (goal_workout_mapping self) ''Weight Loss'' of
           Inl e \<Rightarrow> (Inl e, g1)
         | Inr weight_loss \<Rightarrow>
     (let goal_data = dict_get (goal_workout_mapping self) (goal user) weight_loss;
          available_types = dict_keys (workout_split goal_data)
      in case dict_items (workout_split goal_data) available_types of
           Inl e \<Rightarrow> (Inl e, g1)
         | Inr weights \<Rightarrow>
     (let g2 = rnd_seed R (show_int (age user) @ format_level (fitness_level user)
                           @ strftime_Ymd date @ show_int (weekday date))
      in case py_choices R g2 available_types weights of
           (Inl e, g3) \<Rightarrow> (Inl e, g3)
         | (Inr workout_type, g3) \<Rightarrow>
     (case challenge_exercises_pool self workout_type user of
        Inl e \<Rightarrow> (Inl e, g3)
      | Inr exercises_pool \<Rightarrow>
     (let exercise_count = challenge_exercise_count (fitness_level user)
      in case py_sample R g3 exercises_pool (min exercise_count (int (length exercises_pool))) of
           (Inl e, g4) \<Rightarrow> (Inl e, g4)
         | (Inr selected_exercises, g4) \<Rightarrow>
     (let total_duration = calculate_duration workout_type (fitness_level user)
      in case duration_minutes total_duration of
           Inl e \<Rightarrow> (Inl e, g4)
         | Inr total_duration_min \<Rightarrow>
     (let progression = calculate_progression week difficulty
      in case format_exercises workout_type progression total_duration_min selected_exercises of
           Inl e \<Rightarrow> (Inl e, g4)
         | Inr formatted_exercises \<Rightarrow>
     (let day_name = strftime_A date
      in case level_value (fitness_level user) of
           Inl e \<Rightarrow> (Inl e, g4)
         | Inr difficulty_label \<Rightarrow>
             (Inr \<lparr> ch_name = day_name @ '' '' @ workout_type @ '' Challenge'',
                    ch_date = strftime_Y_m_d date,
                    ch_day_of_week = day_name,
                    ch_type = workout_type,
                    ch_difficulty = difficulty_label,
                    ch_exercises = formatted_exercises,
                    ch_duration = total_duration,
                    ch_required_equipment =
                      get_required_equipment (exercise_db self) selected_exercises \<rparr>,
              g4)))))))))"

section \<open>The pool as list objects\<close>

text \<open>
  The same pool with Python's lists as objects: a heap of lists addressed by position.
  \<open>.copy()\<close> and each list comprehension allocate a new list; the variable
  \<open>exercises_pool\<close> is an address, rebound at each step. \<open>a\<close> is the address of
  the catalog's list for the category.
\<close>

type_synonym heap = "string list list"

definition heap_new :: "heap \<Rightarrow> string list \<Rightarrow> heap \<times> nat" where
  "heap_new h xs = (h @ [xs], length h)"

fun filters_on_heap :: "ExerciseDatabase \<Rightarrow> HealthCondition list \<Rightarrow> heap \<Rightarrow> nat \<Rightarrow> heap \<times> nat" where
  "filters_on_heap db [] h exercises_pool = (h, exercises_pool)"
| "filters_on_heap db (condition # conditions) h exercises_pool =
     (let restricted = dict_get (health_restrictions db) condition [];
          (h', exercises_pool') = heap_new h [e \<leftarrow> h ! exercises_pool. e \<notin> set restricted]
      in filters_on_heap db conditions h' exercises_pool')"

definition pool_on_heap ::
  "ExerciseDatabase \<Rightarrow> string list \<Rightarrow> HealthCondition list \<Rightarrow> heap \<Rightarrow> nat \<Rightarrow> heap \<times> nat" where
  "pool_on_heap db fallback conditions h a =
     (let (h1, exercises_pool) = heap_new h (h ! a);
          (h2, exercises_pool) = filters_on_heap db conditions h1 exercises_pool
      in if h2 ! exercises_pool = [] then heap_new h2 fallback else (h2, exercises_pool))"

section \<open>The batch endpoint (app.py)\<close>

definition days_limit :: int where
  "days_limit = 31"

text \<open>
  The \<open>while\<close> loop of \<open>get_daily_challenges_batch\<close>. An exception leaves the loop; the
  handler of the endpoint answers it with an error response.
\<close>

function challenges_loop ::
  "WorkoutPlanner \<Rightarrow> 'g Random \<Rightarrow> datetime \<Rightarrow> UserProfile \<Rightarrow> datetime \<Rightarrow> datetime \<Rightarrow> int
     \<Rightarrow> DailyChallenge list \<Rightarrow> 'g \<Rightarrow> (error + DailyChallenge list) \<times> 'g" where
  "challenges_loop self R now user end_date current_date day_count challenges g =
     (if toordinal current_date \<le> toordinal end_date \<and> day_count < days_limit then
        (case generate_daily_challenge self R now g user (Some current_date) of
           (Inl e, g') \<Rightarrow> (Inl e, g')
         | (Inr challenge, g') \<Rightarrow>
             (case add_days current_date 1 of
                Inl e \<Rightarrow> (Inl e, g')
              | Inr next_date \<Rightarrow>
                  challenges_loop self R now user end_date next_date (day_count + 1)
                    (challenges @ [challenge]) g'))
      else (Inr challenges, g))"
  by pat_completeness auto
termination
  by (relation "measure (\<lambda>(self, R, now, user, end_date, current_date, day_count, challenges, g).
                          nat (days_limit - day_count))") auto

declare challenges_loop.simps [simp del]

text \<open>
  What the endpoint answers once the profile and both dates are parsed: an error
  message, the exception its handler caught, or the challenges with their count.
\<close>

datatype batch_response =
    Error_response string
  | Failed error
  | Daily_challenges "DailyChallenge list" int

definition get_daily_challenges_batch ::
  "WorkoutPlanner \<Rightarrow> 'g Random \<Rightarrow> datetime \<Rightarrow> 'g \<Rightarrow> UserProfile \<Rightarrow> datetime \<Rightarrow> datetime
     \<Rightarrow> batch_response \<times> 'g" where
  "get_daily_challenges_batch planner R now g user start_date end_date =
     (if toordinal end_date < toordinal start_date
      then (Error_response ''Start date must be before or equal to end date'', g)
      else (case challenges_loop planner R now user end_date start_date 0 [] g of
              (Inl e, g') \<Rightarrow> (Failed e, g')
            | (Inr challenges, g') \<Rightarrow>
                (Daily_challenges challenges (int (length challenges)), g')))"

section \<open>Reading formatted entries\<close>

text \<open>The minutes a timed entry shows, read back as the planner reads a duration; the name of an entry.\<close>

definition entry_minutes :: "ExerciseEntry \<Rightarrow> int option" where
  "entry_minutes entry =
     (case entry of
        TimedEntry exercise d \<Rightarrow> (case duration_minutes d of Inr m \<Rightarrow> Some m | Inl e \<Rightarrow> None)
      | _ \<Rightarrow> None)"


definition entry_name :: "ExerciseEntry \<Rightarrow> string" where
  "entry_name entry =
     (case entry of StrengthEntry exercise _ _ _ \<Rightarrow> exercise
                  | HIITEntry exercise _ _ _ \<Rightarrow> exercise
                  | TimedEntry exercise _ \<Rightarrow> exercise)"

text \<open>A profile and a date to run the planner on.\<close>

definition example_user :: UserProfile where
  "example_user = \<lparr> age = 45, height = 170, weight = 85, gender = ''Female'',
                     fitness_level = BEGINNER, health_conditions = [],
                     goal = ''Nonexistent'', preferred_days = 2 \<rparr>"

text \<open>A list of results in order: the first exception, or all the values.\<close>

fun collect :: "(error + 'a) list \<Rightarrow> error + 'a list" where
  "collect [] = Inr []"
| "collect (Inl e # rest) = Inl e"
| "collect (Inr x # rest) = (case collect rest of Inl e \<Rightarrow> Inl e | Inr xs \<Rightarrow> Inr (x # xs))"

text \<open>
  The calls of \<open>format_exercise\<close> the loop over \<open>enumerate(selected_exercises)\<close> makes:
  the exercise, its index and \<open>len(selected_exercises)\<close>.
\<close>

definition format_calls :: "string list \<Rightarrow> (string \<times> int \<times> int) list" where
  "format_calls selected_exercises =
     map (\<lambda>(i, exercise). (exercise, int i, int (length selected_exercises)))
       (enumerate 0 selected_exercises)"

text \<open>A planner whose catalog holds only exercises that knee pain restricts.\<close>

definition restricted_only :: WorkoutPlanner where
  "restricted_only = WorkoutPlanner_init \<lparr> exercise_db :=
     ExerciseDatabase_init \<lparr> workout_types :=
       [(''Cardio'', [''Burpees'', ''Jump Rope'']), (''Strength'', [''Squats''])] \<rparr> \<rparr>"

section \<open>The generator of least draws keeps the library's contract\<close>

lemma least_draws_choices: "choices_in_population least_draws"
  by (simp add: choices_in_population_def least_draws_def)

lemma least_draws_sample: "sample_without_replacement least_draws"
proof -
  have "mset (take k xs) \<subseteq># mset xs" for k and xs :: "string list"
    by (metis append_take_drop_id mset_append mset_subset_eq_add_left)
  then show ?thesis by (simp add: sample_without_replacement_def least_draws_def)
qed

section \<open>Rounding to binary64\<close>

lemma pow2_powi: "pow2 e = 2 powi e"
  by (simp add: pow2_def power_int_def inverse_eq_divide power_one_over)

lemma pow2_pos: "0 < pow2 e"
  by (simp add: pow2_powi)



lemma pow2_diff: "pow2 (a - b) = pow2 a / pow2 b"
  by (simp add: pow2_powi power_int_diff)

lemma pow2_nat: "pow2 (int n) = 2 ^ n"
  by (simp add: pow2_def)


lemma round_half_even_ge: "\<lfloor>q\<rfloor> \<le> round_half_even q"
  by (simp add: round_half_even_def Let_def)





lemma f64_small_ints: "f64 0 = 0" "f64 1 = 1" "float_of_int 0 = 0" "float_of_int 1 = 1"
  by code_simp+

section \<open>Printing and reading integers\<close>

lemma digit_char_is_digit: "d < 10 \<Longrightarrow> is_digit (digit_char d)"
  by (simp add: is_digit_def digit_char_def)

lemma digit_char_value: "d < 10 \<Longrightarrow> of_char (digit_char d) - 48 = d"
  by (simp add: digit_char_def)

lemma digit_char_not_special:
  "d < 10 \<Longrightarrow> digit_char d \<noteq> CHR '' '' \<and> digit_char d \<noteq> CHR ''-'' \<and> digit_char d \<noteq> CHR ''+''"
proof -
  assume "d < 10"
  then have "is_digit (digit_char d)" by (rule digit_char_is_digit)
  moreover have "\<not> is_digit CHR '' ''" "\<not> is_digit CHR ''-''" "\<not> is_digit CHR ''+''"
    by (simp_all add: is_digit_def)
  ultimately show ?thesis by metis
qed

lemma show_nat_digits: "list_all is_digit (show_nat n)"
proof (induction n rule: show_nat.induct)
  case (1 n)
  show ?case
  proof (cases "n < 10")
    case True
    then show ?thesis by (subst show_nat.simps) (simp add: digit_char_is_digit)
  next
    case False
    with 1 show ?thesis by (subst show_nat.simps) (simp add: digit_char_is_digit)
  qed
qed

lemma show_nat_nonempty: "show_nat n \<noteq> []"
  by (subst show_nat.simps) simp

lemma digits_value_snoc: "digits_value (s @ [c]) = 10 * digits_value s + (of_char c - 48)"
  by (simp add: digits_value_def)

lemma digits_value_show_nat: "digits_value (show_nat n) = n"
proof (induction n rule: show_nat.induct)
  case (1 n)
  show ?case
  proof (cases "n < 10")
    case True
    then show ?thesis by (subst show_nat.simps) (simp add: digits_value_def digit_char_value)
  next
    case False
    with 1 show ?thesis
      by (subst show_nat.simps) (simp add: digits_value_snoc digit_char_value)
  qed
qed

lemma is_digit_not_special:
  "is_digit c \<Longrightarrow> c \<noteq> CHR '' '' \<and> c \<noteq> CHR ''-'' \<and> c \<noteq> CHR ''+''"
  by (auto simp: is_digit_def)

lemma show_nat_hd: "\<exists>c r. show_nat n = c # r \<and> is_digit c"
  using show_nat_digits[of n] show_nat_nonempty[of n] by (cases "show_nat n") auto

lemma int_of_string_show_int: "int_of_string (show_int i) = Inr i"
proof (cases "i < 0")
  case True
  then show ?thesis
    by (simp add: int_of_string_def show_int_def show_nat_digits show_nat_nonempty
        digits_value_show_nat)
next
  case False
  obtain c r where cr: "show_nat (nat i) = c # r" "is_digit c" using show_nat_hd by blast
  have "list_all is_digit (c # r)" using show_nat_digits[of "nat i"] cr by simp
  moreover have "digits_value (c # r) = nat i" using digits_value_show_nat[of "nat i"] cr by simp
  ultimately show ?thesis using False cr is_digit_not_special[OF cr(2)]
    by (simp add: int_of_string_def show_int_def)
qed

lemma show_int_no_blank: "CHR '' '' \<notin> set (show_int i)"
proof -
  have "CHR '' '' \<notin> set (show_nat n)" for n
    using show_nat_digits[of n] is_digit_not_special by (auto simp: list_all_iff)
  then show ?thesis by (simp add: show_int_def)
qed

lemma show_int_nonempty: "show_int i \<noteq> []"
  by (simp add: show_int_def show_nat_nonempty)

lemma first_word_show_int: "first_word (show_int i @ '' minutes'') = Inr (show_int i)"
proof -
  obtain c r where cr: "show_int i = c # r" using show_int_nonempty by (cases "show_int i") auto
  have nb: "\<forall>x \<in> set (show_int i). x \<noteq> CHR '' ''" using show_int_no_blank by metis
  have c: "c \<noteq> CHR '' ''" using nb cr by simp
  have d: "dropWhile (\<lambda>c. c = CHR '' '') (show_int i @ '' minutes'') = show_int i @ '' minutes''"
    using c cr by simp
  have t: "takeWhile (\<lambda>c. c \<noteq> CHR '' '') (show_int i @ '' minutes'') = show_int i"
    using nb by (simp add: takeWhile_append2)
  show ?thesis unfolding first_word_def Let_def d t using cr by simp
qed

lemma duration_minutes_show_int: "duration_minutes (show_int i @ '' minutes'') = Inr i"
  by (simp add: duration_minutes_def first_word_show_int int_of_string_show_int)

lemma format_exercise_timed:
  assumes "workout_type \<noteq> ''Strength''" "workout_type \<noteq> ''HIIT''" "N \<noteq> 0"
  shows "format_exercise exercise workout_type progression i N D
         = Inr (TimedEntry exercise
                  (show_int (D div N + (if i < D mod N then 1 else 0)) @ '' minutes''))"
  using assms by (simp add: format_exercise_def Let_def)

lemma format_loop_timed:
  assumes "workout_type \<noteq> ''Strength''" "workout_type \<noteq> ''HIIT''" "N \<noteq> 0"
  shows "format_loop workout_type progression N D i xs
         = Inr (map (\<lambda>p. TimedEntry (snd p)
                       (show_int (D div N + (if i + int (fst p) < D mod N then 1 else 0))
                        @ '' minutes''))
                  (enumerate 0 xs))"
proof (induction xs arbitrary: i)
  case Nil
  then show ?case by simp
next
  case (Cons x xs)
  have shift: "enumerate (Suc 0) xs = map (apfst Suc) (enumerate 0 xs)"
    by (rule enumerate_Suc_eq)
  have step: "i + 1 + int k = i + int (Suc k)" for k by simp
  show ?case
    using assms
    by (simp add: Cons.IH[of "i + 1"] format_exercise_timed shift step comp_def
        del: One_nat_def of_nat_Suc)
qed

lemma count_below:
  assumes "0 \<le> r" "r \<le> int n"
  shows "(\<Sum>k<n. if int k < r then (1::int) else 0) = r"
  using assms
proof (induction n)
  case 0
  then show ?case by simp
next
  case (Suc n)
  show ?case
  proof (cases "r \<le> int n")
    case True
    then show ?thesis using Suc by simp
  next
    case False
    then have r: "r = int (Suc n)" using Suc.prems by simp
    have "(\<Sum>k<n. if int k < r then (1::int) else 0) = (\<Sum>k<n. 1)"
      by (rule sum.cong) (auto simp: r)
    then show ?thesis by (simp add: r)
  qed
qed

lemma durations_sum:
  assumes "0 < n" "0 \<le> D"
  shows "(\<Sum>k<n. D div int n + (if int k < D mod int n then 1 else 0)) = D"
proof -
  have r: "0 \<le> D mod int n" "D mod int n \<le> int n"
    using assms by (simp_all add: less_imp_le)
  have "(\<Sum>k<n. D div int n + (if int k < D mod int n then 1 else 0))
        = int n * (D div int n) + (\<Sum>k<n. if int k < D mod int n then 1 else 0)"
    by (simp add: sum.distrib)
  also have "\<dots> = int n * (D div int n) + D mod int n"
    using count_below[OF r] by simp
  finally show ?thesis by simp
qed


section \<open>Timed exercises share the day's minutes exactly\<close>

text \<open>
  C2. On a day whose category is neither Strength nor HIIT, with \<open>N \<ge> 1\<close> selected
  exercises and a total of \<open>D \<ge> 0\<close> minutes, the formatter gives exercise \<open>k\<close>
  (0-based) \<open>D div N\<close> minutes, one more for the first \<open>D mod N\<close> exercises; the
  durations are whole minutes and add up to \<open>D\<close>.
\<close>

theorem timed_durations_sum_to_total:
  assumes "workout_type \<noteq> ''Strength''" and "workout_type \<noteq> ''HIIT''"
    and "selected_exercises \<noteq> []" and "0 \<le> D"
  shows "\<exists>entries.
           format_exercises workout_type progression D selected_exercises = Inr entries
           \<and> length entries = length selected_exercises
           \<and> (\<forall>k < length selected_exercises.
                 entries ! k = TimedEntry (selected_exercises ! k)
                   (show_int (D div int (length selected_exercises)
                      + (if int k < D mod int (length selected_exercises) then 1 else 0))
                    @ '' minutes'')
                 \<and> entry_minutes (entries ! k)
                     = Some (D div int (length selected_exercises)
                        + (if int k < D mod int (length selected_exercises) then 1 else 0)))
           \<and> (\<Sum>k < length selected_exercises. the (entry_minutes (entries ! k))) = D"
proof -
  let ?n = "length selected_exercises"
  let ?q = "\<lambda>k. D div int ?n + (if int k < D mod int ?n then 1 else 0)"
  let ?es = "map (\<lambda>p. TimedEntry (snd p) (show_int (?q (fst p)) @ '' minutes''))
               (enumerate 0 selected_exercises)"
  have n: "0 < ?n" using assms(3) by simp
  have fe: "format_exercises workout_type progression D selected_exercises = Inr ?es"
    using format_loop_timed[OF assms(1,2), of "int ?n" progression D 0 selected_exercises] n
    by (simp add: format_exercises_def)
  have nth: "?es ! k = TimedEntry (selected_exercises ! k) (show_int (?q k) @ '' minutes'')"
    if "k < ?n" for k
    using that by (simp add: nth_enumerate_eq)
  have em: "entry_minutes (?es ! k) = Some (?q k)" if "k < ?n" for k
    by (simp only: nth[OF that]) (simp add: entry_minutes_def duration_minutes_show_int)
  have "(\<Sum>k < ?n. the (entry_minutes (?es ! k))) = (\<Sum>k < ?n. ?q k)"
  proof (rule sum.cong)
    fix k assume "k \<in> {..<?n}"
    then have "k < ?n" by simp
    from em[OF this] show "the (entry_minutes (?es ! k)) = ?q k" by (simp only: option.sel)
  qed (rule refl)
  also have "\<dots> = D" by (rule durations_sum[OF n assms(4)])
  finally have total: "(\<Sum>k < ?n. the (entry_minutes (?es ! k))) = D" .
  show ?thesis
  proof (intro exI[of _ ?es] conjI allI impI)
    show "format_exercises workout_type progression D selected_exercises = Inr ?es" by (rule fe)
    show "length ?es = ?n" by simp
    show "(\<Sum>k < ?n. the (entry_minutes (?es ! k))) = D" by (rule total)
  qed (use nth em in blast)+
qed

theorem timed_durations_sum_to_total_witness:
  "\<exists>entries.
     format_exercises ''Cardio'' (calculate_progression 1 1) 24
       [''Treadmill'', ''Cycling'', ''Swimming'', ''Rowing'', ''Elliptical''] = Inr entries
     \<and> length entries = 5
     \<and> entry_minutes (entries ! 3) = Some 5
     \<and> entry_minutes (entries ! 4) = Some 4
     \<and> (\<Sum>k < 5. the (entry_minutes (entries ! k))) = 24"
proof -
  let ?sel = "[''Treadmill'', ''Cycling'', ''Swimming'', ''Rowing'', ''Elliptical'']"
  have h: "''Cardio'' \<noteq> ''Strength''" "''Cardio'' \<noteq> ''HIIT''" "?sel \<noteq> []" "(0::int) \<le> 24"
    by simp_all
  have l: "length ?sel = 5" by simp
  from timed_durations_sum_to_total[OF h, of "calculate_progression 1 1"]
  obtain entries where e:
    "format_exercises ''Cardio'' (calculate_progression 1 1) 24 ?sel = Inr entries"
    "length entries = 5"
    "\<forall>k < 5. entries ! k = TimedEntry (?sel ! k)
                 (show_int (24 div int 5 + (if int k < 24 mod int 5 then 1 else 0)) @ '' minutes'')
               \<and> entry_minutes (entries ! k)
                   = Some (24 div int 5 + (if int k < 24 mod int 5 then 1 else 0))"
    "(\<Sum>k < 5. the (entry_minutes (entries ! k))) = 24"
    unfolding l by blast
  have "(3::nat) < 5" by simp
  from conjunct2[OF e(3)[rule_format, OF this]]
  have m3: "entry_minutes (entries ! 3) = Some 5" by simp
  have "(4::nat) < 5" by simp
  from conjunct2[OF e(3)[rule_format, OF this]]
  have m4: "entry_minutes (entries ! 4) = Some 4" by simp
  from e(1,2,4) m3 m4 show ?thesis by blast
qed

section \<open>Progression and difficulty\<close>



text \<open>
  C8. \<open>calculate_difficulty_modifier\<close> returns the factor of the fitness level
  (0.8 for Beginner, 1.1 for Intermediate, 1.4 for Advanced, 1.0 for a value outside the
  enumeration), multiplied by 0.9 exactly when the list of health conditions is not
  empty; a Beginner without health conditions gets the float 0.8.
\<close>

theorem difficulty_modifier_table:
  "calculate_difficulty_modifier user =
     (let base = (case fitness_level user of
                    BEGINNER \<Rightarrow> f64 (8 / 10)
                  | INTERMEDIATE \<Rightarrow> f64 (11 / 10)
                  | ADVANCED \<Rightarrow> f64 (14 / 10)
                  | NOT_A_MEMBER \<Rightarrow> 1)
      in if health_conditions user \<noteq> [] then fmul base (f64 (9 / 10)) else base)
   \<and> (fitness_level user = BEGINNER \<and> health_conditions user = []
        \<longrightarrow> calculate_difficulty_modifier user = f64 (8 / 10))"
  by (cases "fitness_level user")
     (simp_all add: calculate_difficulty_modifier_def dict_get_def Let_def f64_small_ints)

lemma f64_eight_tenths: "f64 (8 / 10) = 3602879701896397 / 4503599627370496"
  by code_simp

theorem difficulty_modifier_table_witness:
  "calculate_difficulty_modifier example_user = 3602879701896397 / 4503599627370496"
proof -
  have "fitness_level example_user = BEGINNER \<and> health_conditions example_user = []"
    by (simp add: example_user_def)
  with difficulty_modifier_table[of example_user]
  have "calculate_difficulty_modifier example_user = f64 (8 / 10)" by blast
  then show ?thesis by (simp only: f64_eight_tenths)
qed

lemma walk_split_None:
  "walk_split r c xs = None \<longleftrightarrow>
     (\<forall>i < length xs. \<not> r \<le> foldl fadd c (map snd (take (Suc i) xs)))"
proof (induction xs arbitrary: c)
  case Nil
  then show ?case by simp
next
  case (Cons a xs)
  obtain t p where a: "a = (t, p)" by (cases a)
  show ?case
  proof (cases "r \<le> fadd c p")
    case True
    then show ?thesis by (auto simp: a Let_def intro: exI[of _ 0])
  next
    case False
    have "(\<forall>i < length (a # xs). \<not> r \<le> foldl fadd c (map snd (take (Suc i) (a # xs))))
          \<longleftrightarrow> (\<forall>i < length xs. \<not> r \<le> foldl fadd (fadd c p) (map snd (take (Suc i) xs)))"
      (is "?L \<longleftrightarrow> ?R")
    proof
      assume L: ?L
      show ?R
      proof (intro allI impI)
        fix i assume "i < length xs"
        then have "Suc i < length (a # xs)" by simp
        from L[rule_format, OF this] show "\<not> r \<le> foldl fadd (fadd c p) (map snd (take (Suc i) xs))"
          by (simp add: a)
      qed
    next
      assume R: ?R
      show ?L
      proof (intro allI impI)
        fix i assume i: "i < length (a # xs)"
        show "\<not> r \<le> foldl fadd c (map snd (take (Suc i) (a # xs)))"
        proof (cases i)
          case 0
          then show ?thesis using False by (simp add: a)
        next
          case (Suc j)
          then have "j < length xs" using i by simp
          from R[rule_format, OF this] show ?thesis by (simp add: a Suc)
        qed
      qed
    qed
    then show ?thesis using False Cons.IH[of "fadd c p"] by (simp add: a Let_def)
  qed
qed

lemma walk_split_Some:
  "walk_split r c xs = Some t \<Longrightarrow>
     \<exists>i < length xs. t = fst (xs ! i)
        \<and> r \<le> foldl fadd c (map snd (take (Suc i) xs))
        \<and> (\<forall>j < i. \<not> r \<le> foldl fadd c (map snd (take (Suc j) xs)))"
proof (induction xs arbitrary: c)
  case Nil
  then show ?case by simp
next
  case (Cons a xs)
  obtain u p where a: "a = (u, p)" by (cases a)
  show ?case
  proof (cases "r \<le> fadd c p")
    case True
    then have "t = u" using Cons.prems by (simp add: a Let_def)
    then show ?thesis using True by (intro exI[of _ 0]) (simp add: a)
  next
    case False
    then have "walk_split r (fadd c p) xs = Some t" using Cons.prems by (simp add: a Let_def)
    from Cons.IH[OF this] obtain i where i: "i < length xs" "t = fst (xs ! i)"
      "r \<le> foldl fadd (fadd c p) (map snd (take (Suc i) xs))"
      "\<forall>j < i. \<not> r \<le> foldl fadd (fadd c p) (map snd (take (Suc j) xs))" by blast
    have "\<forall>j < Suc i. \<not> r \<le> foldl fadd c (map snd (take (Suc j) (a # xs)))"
    proof (intro allI impI)
      fix j assume j: "j < Suc i"
      show "\<not> r \<le> foldl fadd c (map snd (take (Suc j) (a # xs)))"
      proof (cases j)
        case 0
        then show ?thesis using False by (simp add: a)
      next
        case (Suc k)
        then have "k < i" using j by simp
        with i(4) show ?thesis by (simp add: a Suc)
      qed
    qed
    with i(1,2,3) show ?thesis by (intro exI[of _ "Suc i"]) (simp add: a)
  qed
qed

section \<open>Selecting the workout type\<close>

text \<open>
  C6. For a non-empty mapping and any draw \<open>r\<close>, \<open>select_workout_type\<close> returns the
  first category, in the order of the mapping, whose running sum is at least \<open>r\<close>;
  when no running sum reaches \<open>r\<close> it returns the first category of the mapping. It
  never raises.
\<close>

theorem select_workout_type_first_reaching:
  assumes "split \<noteq> []"
  shows "select_workout_type R g split
           = (select_workout_type_at (fst (rnd_random R g)) split, snd (rnd_random R g))
         \<and> (\<exists>t. select_workout_type_at r split = Inr t
              \<and> ((\<exists>i < length split. t = fst (split ! i) \<and> r \<le> running_sum split i
                     \<and> (\<forall>j < i. \<not> r \<le> running_sum split j))
                  \<or> ((\<forall>i < length split. \<not> r \<le> running_sum split i) \<and> t = fst (hd split))))"
proof
  show "select_workout_type R g split
        = (select_workout_type_at (fst (rnd_random R g)) split, snd (rnd_random R g))"
    by (simp add: select_workout_type_def case_prod_unfold)
  obtain a rest where sp: "split = a # rest" using assms by (cases split) auto
  show "\<exists>t. select_workout_type_at r split = Inr t
          \<and> ((\<exists>i < length split. t = fst (split ! i) \<and> r \<le> running_sum split i
                 \<and> (\<forall>j < i. \<not> r \<le> running_sum split j))
              \<or> ((\<forall>i < length split. \<not> r \<le> running_sum split i) \<and> t = fst (hd split)))"
  proof (cases "walk_split r (float_of_int 0) split")
    case None
    then have "\<forall>i < length split. \<not> r \<le> running_sum split i"
      unfolding running_sum_def by (simp only: walk_split_None)
    moreover have "select_workout_type_at r split = Inr (fst (hd split))"
      using None by (simp add: select_workout_type_at_def dict_keys_def sp)
    ultimately show ?thesis by blast
  next
    case (Some t)
    from walk_split_Some[OF Some]
    have "\<exists>i < length split. t = fst (split ! i) \<and> r \<le> running_sum split i
            \<and> (\<forall>j < i. \<not> r \<le> running_sum split j)"
      unfolding running_sum_def .
    moreover have "select_workout_type_at r split = Inr t"
      using Some by (simp add: select_workout_type_at_def)
    ultimately show ?thesis by blast
  qed
qed

theorem select_workout_type_first_reaching_witness:
  "\<exists>t. select_workout_type_at (f64 (6 / 10))
          [(''Cardio'', f64 (50 / 100)), (''Strength'', f64 (30 / 100)), (''HIIT'', f64 (20 / 100))]
        = Inr t \<and> t = ''Strength''"
proof -
  let ?split = "[(''Cardio'', f64 (50 / 100)), (''Strength'', f64 (30 / 100)),
                 (''HIIT'', f64 (20 / 100))]"
  let ?r = "f64 (6 / 10)"
  have h: "?split \<noteq> []" by simp
  from select_workout_type_first_reaching[OF h, of least_draws 0 ?r]
  obtain t where t: "select_workout_type_at ?r ?split = Inr t"
    and d: "(\<exists>i < length ?split. t = fst (?split ! i) \<and> ?r \<le> running_sum ?split i
               \<and> (\<forall>j < i. \<not> ?r \<le> running_sum ?split j))
            \<or> ((\<forall>i < length ?split. \<not> ?r \<le> running_sum ?split i) \<and> t = fst (hd ?split))"
    by blast
  have r0: "\<not> ?r \<le> running_sum ?split 0" by code_simp
  have r1: "?r \<le> running_sum ?split 1" by code_simp
  have "t = ''Strength''"
    using d
  proof
    assume A: "\<exists>i < length ?split. t = fst (?split ! i) \<and> ?r \<le> running_sum ?split i
               \<and> (\<forall>j < i. \<not> ?r \<le> running_sum ?split j)"
    have len: "length ?split = 3" by simp
    from A[unfolded len] obtain i where i: "i < 3" "t = fst (?split ! i)"
      "?r \<le> running_sum ?split i" "\<forall>j < i. \<not> ?r \<le> running_sum ?split j" by blast
    have "i \<noteq> 0" using i(3) r0 by metis
    moreover have "\<not> 1 < i" using i(4) r1 by blast
    ultimately have "i = 1" by simp
    then show ?thesis unfolding i(2) by simp
  next
    assume B: "(\<forall>i < length ?split. \<not> ?r \<le> running_sum ?split i) \<and> t = fst (hd ?split)"
    have "(1::nat) < length ?split" by simp
    with B have "\<not> ?r \<le> running_sum ?split 1" by blast
    then show ?thesis using r1 by blast
  qed
  with t show ?thesis by blast
qed

lemma apply_health_filters_eq:
  "apply_health_filters db conditions pool
   = [e \<leftarrow> pool. \<forall>c \<in> set conditions. e \<notin> set (dict_get (health_restrictions db) c [])]"
proof (induction conditions arbitrary: pool)
  case Nil
  then show ?case by simp
next
  case (Cons c cs)
  show ?case by (simp add: Cons.IH Let_def conj_commute)
qed

lemma dict_item_key:
  "k \<in> set (dict_keys d) \<Longrightarrow> \<exists>v. dict_item d k = Inr v \<and> (k, v) \<in> set d"
proof -
  assume "k \<in> set (dict_keys d)"
  then have "k \<in> fst ` set d" by (simp add: dict_keys_def)
  then have "map_of d k \<noteq> None" by (simp add: map_of_eq_None_iff)
  then obtain v where "map_of d k = Some v" by blast
  then show ?thesis by (auto simp: dict_item_def dest: map_of_SomeD)
qed

lemma dict_item_error: "dict_item d k = Inl e \<Longrightarrow> e = KeyError k"
  by (simp add: dict_item_def split: option.splits)

lemma filters_on_heap_frame:
  assumes "filters_on_heap db conditions h p = (h', p')" and "p < length h"
  shows "(\<forall>b < length h. h' ! b = h ! b) \<and> length h \<le> length h' \<and> p' < length h'
         \<and> h' ! p' = apply_health_filters db conditions (h ! p)"
  using assms
proof (induction conditions arbitrary: h p)
  case Nil
  then show ?case by simp
next
  case (Cons c cs)
  let ?xs = "[e \<leftarrow> h ! p. e \<notin> set (dict_get (health_restrictions db) c [])]"
  have step: "filters_on_heap db cs (h @ [?xs]) (length h) = (h', p')"
    using Cons.prems(1) by (simp add: heap_new_def Let_def)
  have "length h < length (h @ [?xs])" by simp
  from Cons.IH[OF step this]
  have ih: "\<forall>b < length (h @ [?xs]). h' ! b = (h @ [?xs]) ! b" "length (h @ [?xs]) \<le> length h'"
    "p' < length h'" "h' ! p' = apply_health_filters db cs ((h @ [?xs]) ! length h)"
    by blast+
  have "\<forall>b < length h. h' ! b = h ! b"
  proof (intro allI impI)
    fix b assume b: "b < length h"
    then have "b < length (h @ [?xs])" by simp
    with ih(1) have "h' ! b = (h @ [?xs]) ! b" by blast
    then show "h' ! b = h ! b" using b by (simp add: nth_append)
  qed
  moreover have "length h \<le> length h'" using ih(2) by simp
  moreover have "h' ! p' = apply_health_filters db (c # cs) (h ! p)"
    using ih(4) by (simp add: Let_def)
  ultimately show ?case using ih(3) by blast
qed

lemma pool_on_heap_frame:
  assumes "pool_on_heap db fallback conditions h a = (h', p)" and "a < length h"
  shows "(\<forall>b < length h. h' ! b = h ! b) \<and> p < length h'
         \<and> h' ! p = (if apply_health_filters db conditions (h ! a) = [] then fallback
                     else apply_health_filters db conditions (h ! a))"
proof -
  obtain h2 p2 where f: "filters_on_heap db conditions (h @ [h ! a]) (length h) = (h2, p2)"
    by (cases "filters_on_heap db conditions (h @ [h ! a]) (length h)")
  have "length h < length (h @ [h ! a])" by simp
  from filters_on_heap_frame[OF f this]
  have fr: "\<forall>b < length (h @ [h ! a]). h2 ! b = (h @ [h ! a]) ! b"
    "length (h @ [h ! a]) \<le> length h2" "p2 < length h2"
    "h2 ! p2 = apply_health_filters db conditions (h ! a)"
    by simp_all
  have keep: "\<forall>b < length h. h2 ! b = h ! b"
  proof (intro allI impI)
    fix b assume b: "b < length h"
    then have "b < length (h @ [h ! a])" by simp
    with fr(1) have "h2 ! b = (h @ [h ! a]) ! b" by blast
    then show "h2 ! b = h ! b" using b by (simp add: nth_append)
  qed
  show ?thesis
  proof (cases "h2 ! p2 = []")
    case True
    then have "h' = h2 @ [fallback]" "p = length h2"
      using assms(1) f by (simp_all add: pool_on_heap_def heap_new_def Let_def)
    moreover have "\<forall>b < length h. (h2 @ [fallback]) ! b = h ! b"
      using keep fr(2) by (simp add: nth_append)
    ultimately show ?thesis using True fr(4) by simp
  next
    case False
    then have "h' = h2" "p = p2"
      using assms(1) f by (simp_all add: pool_on_heap_def heap_new_def Let_def)
    then show ?thesis using keep fr(3,4) False by simp
  qed
qed

section \<open>The exercise pool\<close>

text \<open>
  C5. For every category of the catalog and every list of health conditions the pool
  is the category's list without the exercises some condition restricts, and when that
  is empty the single fallback exercise: Low-Impact Walking for Cardio and Bodyweight
  Isometric Holds otherwise on the weekly path, Low-Impact Alternative on the challenge
  path. So the pool is never empty. On the heap of list objects every list that existed
  before, the catalog's among them, is unchanged afterwards.
\<close>

theorem pool_never_empty:
  assumes "workout_type \<in> set (dict_keys (workout_types (exercise_db self)))"
  shows "\<exists>catalog_list filtered.
           dict_item (workout_types (exercise_db self)) workout_type = Inr catalog_list
         \<and> filtered = [e \<leftarrow> catalog_list. \<forall>c \<in> set (health_conditions user).
                          e \<notin> set (dict_get (health_restrictions (exercise_db self)) c [])]
         \<and> workout_exercises_pool self workout_type user
             = Inr (if filtered = []
                    then [if workout_type = ''Cardio'' then ''Low-Impact Walking''
                          else ''Bodyweight Isometric Holds'']
                    else filtered)
         \<and> challenge_exercises_pool self workout_type user
             = Inr (if filtered = [] then [''Low-Impact Alternative''] else filtered)
         \<and> (\<exists>pool. workout_exercises_pool self workout_type user = Inr pool \<and> pool \<noteq> [])
         \<and> (\<exists>pool. challenge_exercises_pool self workout_type user = Inr pool \<and> pool \<noteq> [])
         \<and> (\<forall>h a fallback h' p.
               a < length h \<and> h ! a = catalog_list
               \<and> pool_on_heap (exercise_db self) fallback (health_conditions user) h a = (h', p)
               \<longrightarrow> (\<forall>b < length h. h' ! b = h ! b) \<and> p < length h'
                   \<and> h' ! p = (if filtered = [] then fallback else filtered))"
proof -
  from dict_item_key[OF assms] obtain catalog_list where
    c: "dict_item (workout_types (exercise_db self)) workout_type = Inr catalog_list" by blast
  define filtered where
    "filtered = [e \<leftarrow> catalog_list. \<forall>c \<in> set (health_conditions user).
                   e \<notin> set (dict_get (health_restrictions (exercise_db self)) c [])]"
  have f: "apply_health_filters (exercise_db self) (health_conditions user) catalog_list = filtered"
    by (simp add: apply_health_filters_eq filtered_def)
  have w: "workout_exercises_pool self workout_type user
           = Inr (if filtered = []
                  then [if workout_type = ''Cardio'' then ''Low-Impact Walking''
                        else ''Bodyweight Isometric Holds'']
                  else filtered)"
    by (simp add: workout_exercises_pool_def c f Let_def)
  have d: "challenge_exercises_pool self workout_type user
           = Inr (if filtered = [] then [''Low-Impact Alternative''] else filtered)"
    by (simp add: challenge_exercises_pool_def c f Let_def)
  have heap: "\<forall>h a fallback h' p.
               a < length h \<and> h ! a = catalog_list
               \<and> pool_on_heap (exercise_db self) fallback (health_conditions user) h a = (h', p)
               \<longrightarrow> (\<forall>b < length h. h' ! b = h ! b) \<and> p < length h'
                   \<and> h' ! p = (if filtered = [] then fallback else filtered)"
  proof (intro allI impI)
    fix h a fallback h' p
    assume a: "a < length h \<and> h ! a = catalog_list
               \<and> pool_on_heap (exercise_db self) fallback (health_conditions user) h a = (h', p)"
    then have "pool_on_heap (exercise_db self) fallback (health_conditions user) h a = (h', p)"
      and "a < length h" and ha: "h ! a = catalog_list" by blast+
    from pool_on_heap_frame[OF this(1,2)] show
      "(\<forall>b < length h. h' ! b = h ! b) \<and> p < length h'
       \<and> h' ! p = (if filtered = [] then fallback else filtered)"
      by (simp add: ha f)
  qed
  have wne: "\<exists>pool. workout_exercises_pool self workout_type user = Inr pool \<and> pool \<noteq> []"
    by (simp add: w)
  have dne: "\<exists>pool. challenge_exercises_pool self workout_type user = Inr pool \<and> pool \<noteq> []"
    by (simp add: d)
  show ?thesis
    by (rule exI[of _ catalog_list], rule exI[of _ filtered])
       (intro conjI c filtered_def w d wne dne heap)
qed

theorem pool_never_empty_witness:
  "workout_exercises_pool restricted_only ''Cardio''
     (example_user \<lparr> health_conditions := [KNEE_PAIN] \<rparr>) = Inr [''Low-Impact Walking'']
   \<and> challenge_exercises_pool restricted_only ''Cardio''
     (example_user \<lparr> health_conditions := [KNEE_PAIN] \<rparr>) = Inr [''Low-Impact Alternative'']"
proof -
  let ?u = "example_user \<lparr> health_conditions := [KNEE_PAIN] \<rparr>"
  have h: "''Cardio'' \<in> set (dict_keys (workout_types (exercise_db restricted_only)))"
    by (simp add: restricted_only_def dict_keys_def)
  from pool_never_empty[OF h, of ?u] obtain cl f where
    1: "dict_item (workout_types (exercise_db restricted_only)) ''Cardio'' = Inr cl" and
    2: "f = [e \<leftarrow> cl. \<forall>c \<in> set (health_conditions ?u).
               e \<notin> set (dict_get (health_restrictions (exercise_db restricted_only)) c [])]" and
    3: "workout_exercises_pool restricted_only ''Cardio'' ?u
          = Inr (if f = [] then [if ''Cardio'' = ''Cardio'' then ''Low-Impact Walking''
                                 else ''Bodyweight Isometric Holds''] else f)" and
    4: "challenge_exercises_pool restricted_only ''Cardio'' ?u
          = Inr (if f = [] then [''Low-Impact Alternative''] else f)"
    by (elim exE conjE)
  have cl: "cl = [''Burpees'', ''Jump Rope'']"
    using 1 by (simp add: restricted_only_def dict_item_def)
  have "f = []"
    unfolding 2 cl
    by (simp add: restricted_only_def ExerciseDatabase_init_def dict_get_def example_user_def)
  then show ?thesis using 3 4 by simp
qed

lemma format_exercise_ok:
  "N \<noteq> 0 \<Longrightarrow> \<exists>entry. format_exercise exercise workout_type progression i N D = Inr entry
                         \<and> entry_name entry = exercise"
  by (simp add: format_exercise_def Let_def entry_name_def)

lemma format_exercise_error:
  "format_exercise exercise workout_type progression i N D = Inl e \<Longrightarrow> e = ZeroDivisionError \<and> N = 0"
  by (simp add: format_exercise_def Let_def split: if_splits)

lemma format_loop_ok:
  "N \<noteq> 0 \<Longrightarrow> \<exists>entries. format_loop workout_type progression N D i xs = Inr entries
                          \<and> map entry_name entries = xs"
proof (induction xs arbitrary: i)
  case Nil
  then show ?case by simp
next
  case (Cons x xs)
  from format_exercise_ok[OF Cons.prems] obtain entry where
    e: "format_exercise x workout_type progression i N D = Inr entry" "entry_name entry = x"
    by blast
  from Cons.IH[OF Cons.prems] obtain entries where
    es: "format_loop workout_type progression N D (i + 1) xs = Inr entries"
    "map entry_name entries = xs" by blast
  show ?case by (simp add: e es)
qed

lemma format_exercises_ok:
  "\<exists>entries. format_exercises workout_type progression D selected = Inr entries
             \<and> map entry_name entries = selected"
proof (cases selected)
  case Nil
  then show ?thesis by (simp add: format_exercises_def)
next
  case (Cons x xs)
  then have "int (length selected) \<noteq> 0" by simp
  from format_loop_ok[OF this] show ?thesis by (simp add: format_exercises_def)
qed

lemma format_loop_collect:
  "format_loop workout_type progression N D i xs
   = collect (map (\<lambda>(k, exercise). format_exercise exercise workout_type progression (i + int k) N D)
                (enumerate 0 xs))"
proof (induction xs arbitrary: i)
  case Nil
  then show ?case by simp
next
  case (Cons x xs)
  have shift: "enumerate (Suc 0) xs = map (apfst Suc) (enumerate 0 xs)"
    by (rule enumerate_Suc_eq)
  have step: "i + 1 + int k = i + int (Suc k)" for k by simp
  show ?case
    by (cases "format_exercise x workout_type progression i N D")
       (simp_all add: Cons.IH[of "i + 1"] shift step comp_def case_prod_unfold
          del: One_nat_def of_nat_Suc)
qed

lemma format_exercises_calls:
  "format_exercises workout_type progression D selected
   = collect (map (\<lambda>(exercise, i, n). format_exercise exercise workout_type progression i n D)
                (format_calls selected))"
  by (simp add: format_exercises_def format_loop_collect format_calls_def comp_def
      case_prod_unfold)

lemma format_calls_positive: "c \<in> set (format_calls selected) \<Longrightarrow> 1 \<le> snd (snd c)"
  by (cases selected) (auto simp: format_calls_def)

lemma py_sample_error: "py_sample R g pool k = (Inl e, g') \<Longrightarrow> e = ValueError"
  by (simp add: py_sample_def split: if_splits prod.splits)

lemma duration_minutes_calculate_duration:
  "\<exists>m. duration_minutes (calculate_duration workout_type level) = Inr m"
  by (simp add: calculate_duration_def Let_def duration_minutes_show_int)

lemma workout_exercises_pool_error:
  "workout_exercises_pool self workout_type user = Inl e \<Longrightarrow> e = KeyError workout_type"
  by (auto simp: workout_exercises_pool_def Let_def split: sum.splits dest: dict_item_error)

lemma challenge_exercises_pool_error:
  "challenge_exercises_pool self workout_type user = Inl e \<Longrightarrow> e = KeyError workout_type"
  by (auto simp: challenge_exercises_pool_def Let_def split: sum.splits dest: dict_item_error)

lemma generate_daily_workout_error:
  assumes "generate_daily_workout self R g workout_type intensity user progression = (Inl e, g')"
  shows "e = KeyError workout_type \<or> e = ValueError"
proof (cases "workout_exercises_pool self workout_type user")
  case (Inl e')
  then show ?thesis
    using assms workout_exercises_pool_error[OF Inl] by (simp add: generate_daily_workout_def)
next
  case (Inr pool)
  let ?k = "min (calculate_num_exercises (fitness_level user) progression) (int (length pool))"
  obtain r g1 where s: "py_sample R g pool ?k = (r, g1)" by (cases "py_sample R g pool ?k")
  show ?thesis
  proof (cases r)
    case (Inl e')
    then show ?thesis
      using assms Inr s py_sample_error[of R g pool ?k e' g1]
      by (simp add: generate_daily_workout_def Let_def)
  next
    case sel: (Inr selected)
    obtain m where m: "duration_minutes (calculate_duration workout_type (fitness_level user)) = Inr m"
      using duration_minutes_calculate_duration by blast
    obtain entries where es: "format_exercises workout_type progression m selected = Inr entries"
      using format_exercises_ok by blast
    show ?thesis using assms Inr s sel m es by (simp add: generate_daily_workout_def Let_def)
  qed
qed

lemma select_workout_type_error:
  "select_workout_type R g split = (Inl e, g') \<Longrightarrow> e = IndexError"
  by (auto simp: select_workout_type_def select_workout_type_at_def
      split: prod.splits option.splits list.splits)

lemma days_loop_error:
  "days_loop self R goal_data user progression n g = (Inl e, g') \<Longrightarrow> e \<noteq> ZeroDivisionError"
proof (induction n arbitrary: g)
  case 0
  then show ?case by simp
next
  case (Suc n)
  obtain r1 g1 where s: "select_workout_type R g (workout_split goal_data) = (r1, g1)"
    by (cases "select_workout_type R g (workout_split goal_data)")
  show ?case
  proof (cases r1)
    case (Inl e1)
    then show ?thesis using Suc.prems s select_workout_type_error[of R g _ e1 g1] by auto
  next
    case wt: (Inr workout_type)
    show ?thesis
    proof (cases "dict_item (intensity_range goal_data) workout_type")
      case (Inl e2)
      then show ?thesis using Suc.prems s wt dict_item_error[OF Inl] by auto
    next
      case i: (Inr intensity)
      obtain r3 g3 where
        d: "generate_daily_workout self R g1 workout_type intensity user progression = (r3, g3)"
        by (cases "generate_daily_workout self R g1 workout_type intensity user progression")
      show ?thesis
      proof (cases r3)
        case (Inl e3)
        then show ?thesis
          using Suc.prems s wt i d generate_daily_workout_error[of self R g1 _ _ _ _ e3 g3] by auto
      next
        case dw: (Inr daily_workout)
        obtain r4 g4 where l: "days_loop self R goal_data user progression n g3 = (r4, g4)"
          by (cases "days_loop self R goal_data user progression n g3")
        show ?thesis
        proof (cases r4)
          case (Inl e4)
          then show ?thesis using Suc.prems s wt i d dw l Suc.IH[of g3] by auto
        next
          case (Inr rest)
          then show ?thesis using Suc.prems s wt i d dw l by auto
        qed
      qed
    qed
  qed
qed

lemma weeks_loop_error:
  "weeks_loop self R goal_data user dm ws g = (Inl e, g') \<Longrightarrow> e \<noteq> ZeroDivisionError"
proof (induction ws arbitrary: g)
  case Nil
  then show ?case by simp
next
  case (Cons w ws)
  let ?p = "calculate_progression w dm"
  obtain r1 g1 where d: "days_loop self R goal_data user ?p (nat (preferred_days user)) g = (r1, g1)"
    by (cases "days_loop self R goal_data user ?p (nat (preferred_days user)) g")
  show ?case
  proof (cases r1)
    case (Inl e1)
    then show ?thesis using Cons.prems d days_loop_error[of self R goal_data user ?p _ g e1 g1]
      by (auto simp: Let_def)
  next
    case wp: (Inr weekly_plan)
    obtain r2 g2 where l: "weeks_loop self R goal_data user dm ws g1 = (r2, g2)"
      by (cases "weeks_loop self R goal_data user dm ws g1")
    show ?thesis
    proof (cases r2)
      case (Inl e2)
      then show ?thesis using Cons.prems d wp l Cons.IH[of g1] by (auto simp: Let_def)
    next
      case (Inr later)
      then show ?thesis using Cons.prems d wp l by (auto simp: Let_def)
    qed
  qed
qed

lemma generate_workout_plan_error:
  "generate_workout_plan self R now g user n_weeks = (Inl e, g') \<Longrightarrow> e \<noteq> ZeroDivisionError"
  by (auto simp: generate_workout_plan_def Let_def split: sum.splits prod.splits
      dest: dict_item_error weeks_loop_error)

lemma dict_items_error: "dict_items d ks = Inl e \<Longrightarrow> \<exists>k. e = KeyError k"
  by (induction ks) (auto split: sum.splits dest: dict_item_error)

lemma py_choices_error:
  "py_choices R g population weights = (Inl e, g') \<Longrightarrow> e = ValueError \<or> e = IndexError"
  by (auto simp: py_choices_def split: if_splits prod.splits)

lemma level_value_error: "level_value level = Inl e \<Longrightarrow> e = AttributeError"
  by (cases level) (simp_all add: level_value_def)

lemma generate_daily_challenge_error:
  assumes "generate_daily_challenge self R now g user specific_date = (Inl e, g')"
  shows "e \<noteq> ZeroDivisionError"
proof -
  have fe: "format_exercises wt p m sel \<noteq> Inl e'" for wt p m sel e'
    using format_exercises_ok[of wt p m sel] by auto
  have dm: "duration_minutes (calculate_duration wt l) \<noteq> Inl e'" for wt l e'
    using duration_minutes_calculate_duration[of wt l] by auto
  show ?thesis
    using assms
    by (auto simp: generate_daily_challenge_def Let_def fe dm
        split: sum.splits prod.splits
        dest: dict_item_error dict_items_error py_choices_error py_sample_error
          challenge_exercises_pool_error level_value_error)
qed

section \<open>No division by zero\<close>

text \<open>
  C10. The formatting loop calls \<open>format_exercise\<close> once per selected exercise with the
  length of the selection as the number of exercises, so that number is at least 1 in
  every call; the loop never raises, and neither \<open>generate_daily_workout\<close>,
  \<open>generate_workout_plan\<close> nor \<open>generate_daily_challenge\<close> ever raises
  ZeroDivisionError.
\<close>

theorem no_division_by_zero:
  "format_exercises workout_type progression D selected_exercises
     = collect (map (\<lambda>(exercise, i, n). format_exercise exercise workout_type progression i n D)
                  (format_calls selected_exercises))
   \<and> (\<forall>c \<in> set (format_calls selected_exercises). 1 \<le> snd (snd c))
   \<and> (\<exists>entries. format_exercises workout_type progression D selected_exercises = Inr entries
                \<and> length entries = length selected_exercises)
   \<and> fst (generate_daily_workout self R g workout_type intensity user progression)
       \<noteq> Inl ZeroDivisionError
   \<and> fst (generate_workout_plan self R now g user n_weeks) \<noteq> Inl ZeroDivisionError
   \<and> fst (generate_daily_challenge self R now g user specific_date) \<noteq> Inl ZeroDivisionError"
proof (intro conjI)
  show "format_exercises workout_type progression D selected_exercises
     = collect (map (\<lambda>(exercise, i, n). format_exercise exercise workout_type progression i n D)
                  (format_calls selected_exercises))"
    by (rule format_exercises_calls)
  show "\<forall>c \<in> set (format_calls selected_exercises). 1 \<le> snd (snd c)"
    using format_calls_positive by blast
  show "\<exists>entries. format_exercises workout_type progression D selected_exercises = Inr entries
                \<and> length entries = length selected_exercises"
    using format_exercises_ok[of workout_type progression D selected_exercises]
    by (metis length_map)
  show "fst (generate_daily_workout self R g workout_type intensity user progression)
          \<noteq> Inl ZeroDivisionError"
    using generate_daily_workout_error[of self R g workout_type intensity user progression]
    by (cases "generate_daily_workout self R g workout_type intensity user progression") auto
  show "fst (generate_workout_plan self R now g user n_weeks) \<noteq> Inl ZeroDivisionError"
    using generate_workout_plan_error[of self R now g user n_weeks]
    by (cases "generate_workout_plan self R now g user n_weeks") auto
  show "fst (generate_daily_challenge self R now g user specific_date) \<noteq> Inl ZeroDivisionError"
    using generate_daily_challenge_error[of self R now g user specific_date]
    by (cases "generate_daily_challenge self R now g user specific_date") auto
qed

theorem no_division_by_zero_witness:
  "(\<exists>entries. format_exercises ''Cardio'' (calculate_progression 1 1) 24 [''Treadmill''] = Inr entries
              \<and> length entries = length [''Treadmill''])
   \<and> fst (generate_daily_workout WorkoutPlanner_init least_draws 0 ''Cardio'' ''easy''
            example_user (calculate_progression 1 1)) \<noteq> Inl ZeroDivisionError
   \<and> fst (generate_workout_plan WorkoutPlanner_init least_draws (Datetime 739252) 0
            example_user 4) \<noteq> Inl ZeroDivisionError
   \<and> fst (generate_daily_challenge WorkoutPlanner_init least_draws (Datetime 739252) 0
            example_user None) \<noteq> Inl ZeroDivisionError"
  using no_division_by_zero[of "''Cardio''" "calculate_progression 1 1" 24 "[''Treadmill'']"
      WorkoutPlanner_init least_draws 0 "''easy''" example_user "Datetime 739252" 4 None]
  by blast

section \<open>Determinism of the daily challenge\<close>

text \<open>
  C1. For a given profile and date, \<open>generate_daily_challenge\<close> returns the same
  result whatever the state of the generator and the clock at the call: the generator
  is reseeded before anything is drawn. The result depends on the generator only through
  the state seeded from age, fitness level, date as YYYYMMDD and weekday, and through
  \<open>choices\<close> and \<open>sample\<close>.
\<close>

theorem daily_challenge_deterministic:
  "generate_daily_challenge self R now g user (Some date)
     = generate_daily_challenge self R now' g' user (Some date)
   \<and> (rnd_choices R' = rnd_choices R \<and> rnd_sample R' = rnd_sample R
        \<and> rnd_seed R' (show_int (age user) @ format_level (fitness_level user)
                        @ strftime_Ymd date @ show_int (weekday date))
          = rnd_seed R (show_int (age user) @ format_level (fitness_level user)
                        @ strftime_Ymd date @ show_int (weekday date))
      \<longrightarrow> fst (generate_daily_challenge self R' now g user (Some date))
          = fst (generate_daily_challenge self R now g user (Some date)))"
proof (intro conjI impI)
  show "generate_daily_challenge self R now g user (Some date)
        = generate_daily_challenge self R now' g' user (Some date)"
    by (simp add: generate_daily_challenge_def)
  assume a: "rnd_choices R' = rnd_choices R \<and> rnd_sample R' = rnd_sample R
        \<and> rnd_seed R' (show_int (age user) @ format_level (fitness_level user)
                        @ strftime_Ymd date @ show_int (weekday date))
          = rnd_seed R (show_int (age user) @ format_level (fitness_level user)
                        @ strftime_Ymd date @ show_int (weekday date))"
  have c: "py_choices R' = py_choices R" using a by (simp add: py_choices_def fun_eq_iff)
  have s: "py_sample R' = py_sample R" using a by (simp add: py_sample_def fun_eq_iff)
  show "fst (generate_daily_challenge self R' now g user (Some date))
        = fst (generate_daily_challenge self R now g user (Some date))"
    using a
    by (simp add: generate_daily_challenge_def Let_def c s
        split: sum.splits prod.splits)
qed

theorem daily_challenge_deterministic_witness:
  "fst (generate_daily_challenge WorkoutPlanner_init
          (least_draws \<lparr> rnd_random := (\<lambda>g. (1 / 2, g)) \<rparr>) (Datetime 1) 0 example_user
          (Some (Datetime 739252)))
   = fst (generate_daily_challenge WorkoutPlanner_init least_draws (Datetime 5) 7 example_user
          (Some (Datetime 739252)))"
proof -
  let ?R' = "least_draws \<lparr> rnd_random := (\<lambda>g. (1 / 2, g)) \<rparr>"
  let ?d = "Datetime 739252"
  have h: "rnd_choices ?R' = rnd_choices least_draws \<and> rnd_sample ?R' = rnd_sample least_draws
           \<and> rnd_seed ?R' (show_int (age example_user) @ format_level (fitness_level example_user)
                            @ strftime_Ymd ?d @ show_int (weekday ?d))
             = rnd_seed least_draws (show_int (age example_user)
                            @ format_level (fitness_level example_user)
                            @ strftime_Ymd ?d @ show_int (weekday ?d))"
    by (simp add: least_draws_def)
  from daily_challenge_deterministic[of WorkoutPlanner_init least_draws "Datetime 1" 0
      example_user ?d "Datetime 5" 7 ?R'] h
  show ?thesis by metis
qed

lemma dict_get_cases: "dict_get d k dflt = dflt \<or> (k, dict_get d k dflt) \<in> set d"
  by (auto simp: dict_get_def split: option.splits dest: map_of_SomeD)




lemma dict_items_keys:
  "set ks \<subseteq> set (dict_keys d) \<Longrightarrow> \<exists>vs. dict_items d ks = Inr vs \<and> length vs = length ks"
proof (induction ks)
  case Nil
  then show ?case by simp
next
  case (Cons k ks)
  then obtain v where "dict_item d k = Inr v" using dict_item_key[of k d] by auto
  moreover obtain vs where "dict_items d ks = Inr vs" "length vs = length ks"
    using Cons by auto
  ultimately show ?case by simp
qed

lemma weight_loss_entry:
  "\<exists>wl. dict_item (goal_workout_mapping WorkoutPlanner_init) ''Weight Loss'' = Inr wl"
  by (simp add: WorkoutPlanner_init_def dict_item_def)

text \<open>The splits of the four goals.\<close>

lemma init_goal_splits:
  assumes "(k, gd) \<in> set (goal_workout_mapping WorkoutPlanner_init)"
  shows "workout_split gd \<in> {[(''Cardio'', f64 (50 / 100)), (''Strength'', f64 (30 / 100)),
                                (''HIIT'', f64 (20 / 100))],
                               [(''Strength'', f64 (70 / 100)), (''Cardio'', f64 (15 / 100)),
                                (''Flexibility'', f64 (15 / 100))],
                               [(''Cardio'', f64 (60 / 100)), (''Strength'', f64 (25 / 100)),
                                (''Flexibility'', f64 (15 / 100))],
                               [(''Flexibility'', f64 (60 / 100)), (''Strength'', f64 (25 / 100)),
                                (''Cardio'', f64 (15 / 100))]}"
  using assms by (auto simp: WorkoutPlanner_init_def)

lemma total_positive:
  "\<not> fadd (foldl fadd (f64 (50 / 100)) [f64 (30 / 100), f64 (20 / 100)]) 0 \<le> 0"
  "\<not> fadd (foldl fadd (f64 (70 / 100)) [f64 (15 / 100), f64 (15 / 100)]) 0 \<le> 0"
  "\<not> fadd (foldl fadd (f64 (60 / 100)) [f64 (25 / 100), f64 (15 / 100)]) 0 \<le> 0"
  by code_simp+

lemma init_catalog_keys:
  "dict_keys (workout_types (exercise_db WorkoutPlanner_init))
   = [''Cardio'', ''Strength'', ''Flexibility'', ''HIIT'']"
  by (simp add: WorkoutPlanner_init_def ExerciseDatabase_init_def dict_keys_def)

text \<open>For each goal of the planner: the weights are found, the draw is made, and it is a category of the catalog.\<close>

lemma init_choice:
  assumes gd: "(k, gd) \<in> set (goal_workout_mapping WorkoutPlanner_init)"
    and R: "choices_in_population R"
  shows "\<exists>ws wt g3. dict_items (workout_split gd) (dict_keys (workout_split gd)) = Inr ws
           \<and> py_choices R g2 (dict_keys (workout_split gd)) ws = (Inr wt, g3)
           \<and> wt \<in> set (dict_keys (workout_types (exercise_db WorkoutPlanner_init)))"
proof -
  have m: "fst (rnd_choices R g2 pop ws) \<in> set pop" if "pop \<noteq> []" for pop ws
    using R that by (simp add: choices_in_population_def)
  from init_goal_splits[OF gd] consider
      "workout_split gd = [(''Cardio'', f64 (50 / 100)), (''Strength'', f64 (30 / 100)),
                           (''HIIT'', f64 (20 / 100))]"
    | "workout_split gd = [(''Strength'', f64 (70 / 100)), (''Cardio'', f64 (15 / 100)),
                           (''Flexibility'', f64 (15 / 100))]"
    | "workout_split gd = [(''Cardio'', f64 (60 / 100)), (''Strength'', f64 (25 / 100)),
                           (''Flexibility'', f64 (15 / 100))]"
    | "workout_split gd = [(''Flexibility'', f64 (60 / 100)), (''Strength'', f64 (25 / 100)),
                           (''Cardio'', f64 (15 / 100))]"
    by blast
  then show ?thesis
  proof cases
    case 1
    let ?pop = "[''Cardio'', ''Strength'', ''HIIT'']"
    let ?ws = "[f64 (50 / 100), f64 (30 / 100), f64 (20 / 100)]"
    have a: "dict_items (workout_split gd) (dict_keys (workout_split gd)) = Inr ?ws"
      by (simp add: 1 dict_keys_def dict_item_def)
    have k: "dict_keys (workout_split gd) = ?pop" by (simp add: 1 dict_keys_def)
    have b: "py_choices R g2 ?pop ?ws
             = (Inr (fst (rnd_choices R g2 ?pop ?ws)), snd (rnd_choices R g2 ?pop ?ws))"
      using total_positive(1) by (simp add: py_choices_def case_prod_unfold)
    have "fst (rnd_choices R g2 ?pop ?ws) \<in> set ?pop" by (rule m) simp
    then have c: "fst (rnd_choices R g2 ?pop ?ws)
                  \<in> set (dict_keys (workout_types (exercise_db WorkoutPlanner_init)))"
      unfolding init_catalog_keys by auto
    show ?thesis using a b c unfolding k by blast
  next
    case 2
    let ?pop = "[''Strength'', ''Cardio'', ''Flexibility'']"
    let ?ws = "[f64 (70 / 100), f64 (15 / 100), f64 (15 / 100)]"
    have a: "dict_items (workout_split gd) (dict_keys (workout_split gd)) = Inr ?ws"
      by (simp add: 2 dict_keys_def dict_item_def)
    have k: "dict_keys (workout_split gd) = ?pop" by (simp add: 2 dict_keys_def)
    have b: "py_choices R g2 ?pop ?ws
             = (Inr (fst (rnd_choices R g2 ?pop ?ws)), snd (rnd_choices R g2 ?pop ?ws))"
      using total_positive(2) by (simp add: py_choices_def case_prod_unfold)
    have "fst (rnd_choices R g2 ?pop ?ws) \<in> set ?pop" by (rule m) simp
    then have c: "fst (rnd_choices R g2 ?pop ?ws)
                  \<in> set (dict_keys (workout_types (exercise_db WorkoutPlanner_init)))"
      unfolding init_catalog_keys by auto
    show ?thesis using a b c unfolding k by blast
  next
    case 3
    let ?pop = "[''Cardio'', ''Strength'', ''Flexibility'']"
    let ?ws = "[f64 (60 / 100), f64 (25 / 100), f64 (15 / 100)]"
    have a: "dict_items (workout_split gd) (dict_keys (workout_split gd)) = Inr ?ws"
      by (simp add: 3 dict_keys_def dict_item_def)
    have k: "dict_keys (workout_split gd) = ?pop" by (simp add: 3 dict_keys_def)
    have b: "py_choices R g2 ?pop ?ws
             = (Inr (fst (rnd_choices R g2 ?pop ?ws)), snd (rnd_choices R g2 ?pop ?ws))"
      using total_positive(3) by (simp add: py_choices_def case_prod_unfold)
    have "fst (rnd_choices R g2 ?pop ?ws) \<in> set ?pop" by (rule m) simp
    then have c: "fst (rnd_choices R g2 ?pop ?ws)
                  \<in> set (dict_keys (workout_types (exercise_db WorkoutPlanner_init)))"
      unfolding init_catalog_keys by auto
    show ?thesis using a b c unfolding k by blast
  next
    case 4
    let ?pop = "[''Flexibility'', ''Strength'', ''Cardio'']"
    let ?ws = "[f64 (60 / 100), f64 (25 / 100), f64 (15 / 100)]"
    have a: "dict_items (workout_split gd) (dict_keys (workout_split gd)) = Inr ?ws"
      by (simp add: 4 dict_keys_def dict_item_def)
    have k: "dict_keys (workout_split gd) = ?pop" by (simp add: 4 dict_keys_def)
    have b: "py_choices R g2 ?pop ?ws
             = (Inr (fst (rnd_choices R g2 ?pop ?ws)), snd (rnd_choices R g2 ?pop ?ws))"
      using total_positive(3) by (simp add: py_choices_def case_prod_unfold)
    have "fst (rnd_choices R g2 ?pop ?ws) \<in> set ?pop" by (rule m) simp
    then have c: "fst (rnd_choices R g2 ?pop ?ws)
                  \<in> set (dict_keys (workout_types (exercise_db WorkoutPlanner_init)))"
      unfolding init_catalog_keys by auto
    show ?thesis using a b c unfolding k by blast
  qed
qed

lemma challenge_exercises_pool_ok:
  assumes "workout_type \<in> set (dict_keys (workout_types (exercise_db self)))"
  shows "\<exists>pool. challenge_exercises_pool self workout_type user = Inr pool \<and> pool \<noteq> []"
proof -
  from dict_item_key[OF assms] obtain cl where
    "dict_item (workout_types (exercise_db self)) workout_type = Inr cl" by blast
  then show ?thesis by (simp add: challenge_exercises_pool_def Let_def)
qed

lemma challenge_exercise_count_table:
  "challenge_exercise_count level
   = (case level of BEGINNER \<Rightarrow> 2 | INTERMEDIATE \<Rightarrow> 3 | ADVANCED \<Rightarrow> 4 | NOT_A_MEMBER \<Rightarrow> 2)"
  by (cases level) (simp_all add: challenge_exercise_count_def dict_get_def)

lemma challenge_sample_ok:
  assumes "pool \<noteq> []"
  shows "py_sample R g pool (min (challenge_exercise_count level) (int (length pool)))
         = (Inr (fst (rnd_sample R g pool
                   (nat (min (challenge_exercise_count level) (int (length pool)))))),
            snd (rnd_sample R g pool
                   (nat (min (challenge_exercise_count level) (int (length pool))))))"
proof -
  have "0 \<le> challenge_exercise_count level"
    by (cases level) (simp_all add: challenge_exercise_count_table)
  then show ?thesis by (simp add: py_sample_def case_prod_unfold)
qed

text \<open>The challenge along the path on which nothing raises.\<close>

lemma generate_daily_challenge_run:
  assumes wl: "dict_item (goal_workout_mapping self) ''Weight Loss'' = Inr weight_loss"
    and gd: "goal_data = dict_get (goal_workout_mapping self) (goal user) weight_loss"
    and ws: "dict_items (workout_split goal_data) (dict_keys (workout_split goal_data)) = Inr ws"
    and ch: "py_choices R
               (rnd_seed R (show_int (age user) @ format_level (fitness_level user)
                            @ strftime_Ymd date @ show_int (weekday date)))
               (dict_keys (workout_split goal_data)) ws = (Inr workout_type, g3)"
    and pool: "challenge_exercises_pool self workout_type user = Inr pool"
    and sel: "py_sample R g3 pool (min (challenge_exercise_count (fitness_level user))
                                       (int (length pool))) = (Inr selected, g4)"
    and lv: "level_value (fitness_level user) = Inr label"
  shows "\<exists>c. generate_daily_challenge self R now g user (Some date) = (Inr c, g4)
           \<and> ch_type c = workout_type
           \<and> map entry_name (ch_exercises c) = selected
           \<and> ch_date c = strftime_Y_m_d date"
proof -
  obtain m where m: "duration_minutes (calculate_duration workout_type (fitness_level user)) = Inr m"
    using duration_minutes_calculate_duration by blast
  let ?week = "(days_between date (Datetime (ymd2ord 2025 1 1)) + 1 - 1) div 7 + 1"
  let ?p = "calculate_progression ?week (calculate_difficulty_modifier user)"
  obtain es where es: "format_exercises workout_type ?p m selected = Inr es"
    "map entry_name es = selected"
    using format_exercises_ok by blast
  show ?thesis
    using wl gd[symmetric] ws ch pool sel lv m es
    by (simp add: generate_daily_challenge_def Let_def)
qed

lemma daily_challenge_succeeds:
  assumes R: "choices_in_population R" and lv: "fitness_level user \<noteq> NOT_A_MEMBER"
  shows "\<exists>c g'. generate_daily_challenge WorkoutPlanner_init R now g user (Some date) = (Inr c, g')
           \<and> ch_date c = strftime_Y_m_d date"
proof -
  let ?self = WorkoutPlanner_init
  obtain wl where wl: "dict_item (goal_workout_mapping ?self) ''Weight Loss'' = Inr wl"
    using weight_loss_entry by blast
  define gd where "gd = dict_get (goal_workout_mapping ?self) (goal user) wl"
  have "\<exists>k. (k, gd) \<in> set (goal_workout_mapping ?self)"
  proof -
    have "(''Weight Loss'', wl) \<in> set (goal_workout_mapping ?self)"
      using wl by (auto simp: dict_item_def split: option.splits dest: map_of_SomeD)
    then show ?thesis
      using dict_get_cases[of "goal_workout_mapping ?self" "goal user" wl]
      unfolding gd_def by metis
  qed
  then obtain k where k: "(k, gd) \<in> set (goal_workout_mapping ?self)" by blast
  let ?g2 = "rnd_seed R (show_int (age user) @ format_level (fitness_level user)
                          @ strftime_Ymd date @ show_int (weekday date))"
  from init_choice[OF k R, of ?g2] obtain ws wt g3 where
    ws: "dict_items (workout_split gd) (dict_keys (workout_split gd)) = Inr ws" and
    ch: "py_choices R ?g2 (dict_keys (workout_split gd)) ws = (Inr wt, g3)" and
    wt: "wt \<in> set (dict_keys (workout_types (exercise_db ?self)))" by blast
  from challenge_exercises_pool_ok[OF wt, of user] obtain pool where
    pool: "challenge_exercises_pool ?self wt user = Inr pool" "pool \<noteq> []" by blast
  let ?k = "min (challenge_exercise_count (fitness_level user)) (int (length pool))"
  have sel: "py_sample R g3 pool ?k
             = (Inr (fst (rnd_sample R g3 pool (nat ?k))), snd (rnd_sample R g3 pool (nat ?k)))"
    by (rule challenge_sample_ok[OF pool(2)])
  obtain label where label: "level_value (fitness_level user) = Inr label"
    using lv by (cases "fitness_level user") (simp_all add: level_value_def)
  from generate_daily_challenge_run[OF wl gd_def ws ch pool(1) sel label, of now g]
  show ?thesis by blast
qed



section \<open>Unknown goals\<close>



section \<open>The batch of challenges\<close>

lemma challenge_ignores_state:
  "generate_daily_challenge self R now g user (Some date)
   = generate_daily_challenge self R now g' user (Some date)"
  by (simp add: generate_daily_challenge_def)

lemma add_one_day:
  "add_days date 1 = (if 0 \<le> toordinal date \<and> toordinal date < MAXORDINAL
                      then Inr (Datetime (toordinal date + 1)) else Inl OverflowError)"
  by (auto simp: add_days_def Let_def)

lemma challenges_loop_run:
  assumes ok: "\<And>date g. \<exists>c g'. generate_daily_challenge self R now g user (Some date) = (Inr c, g')"
    and n: "n = nat (min (days_limit - day_count) (toordinal end_date - toordinal current_date + 1))"
    and lo: "0 \<le> toordinal current_date"
    and hi: "toordinal current_date + int n \<le> MAXORDINAL"
  shows "\<exists>cs g'. challenges_loop self R now user end_date current_date day_count challenges g
                   = (Inr (challenges @ cs), g')
           \<and> length cs = n
           \<and> (\<forall>i < n. fst (generate_daily_challenge self R now g0 user
                               (Some (Datetime (toordinal current_date + int i)))) = Inr (cs ! i))"
  using n lo hi
proof (induction n arbitrary: current_date day_count challenges g)
  case 0
  then have nc: "\<not> (toordinal current_date \<le> toordinal end_date \<and> day_count < days_limit)"
    by auto
  have "challenges_loop self R now user end_date current_date day_count challenges g
        = (Inr challenges, g)"
    by (subst challenges_loop.simps) (simp only: nc if_False)
  then show ?case by simp
next
  case (Suc n)
  from Suc.prems(1) have cond: "toordinal current_date \<le> toordinal end_date" "day_count < days_limit"
    by linarith+
  obtain c g1 where c: "generate_daily_challenge self R now g user (Some current_date) = (Inr c, g1)"
    using ok by blast
  let ?next = "Datetime (toordinal current_date + 1)"
  have nx: "add_days current_date 1 = Inr ?next"
    using Suc.prems(2,3) by (simp add: add_one_day)
  have n': "n = nat (min (days_limit - (day_count + 1)) (toordinal end_date - toordinal ?next + 1))"
    using Suc.prems(1) by (simp; linarith)
  have lo': "0 \<le> toordinal ?next" using Suc.prems(2) by simp
  have hi': "toordinal ?next + int n \<le> MAXORDINAL" using Suc.prems(3) by simp
  from Suc.IH[OF n' lo' hi', of "challenges @ [c]" g1] obtain cs g' where
    r: "challenges_loop self R now user end_date ?next (day_count + 1) (challenges @ [c]) g1
        = (Inr ((challenges @ [c]) @ cs), g')"
    and l: "length cs = n"
    and a: "\<forall>i < n. fst (generate_daily_challenge self R now g0 user
                          (Some (Datetime (toordinal ?next + int i)))) = Inr (cs ! i)"
    by blast
  have step: "challenges_loop self R now user end_date current_date day_count challenges g
              = (Inr (challenges @ (c # cs)), g')"
    by (subst challenges_loop.simps) (simp add: cond c nx r)
  have first: "fst (generate_daily_challenge self R now g0 user (Some current_date)) = Inr c"
    using c challenge_ignores_state[of self R now g0 user current_date g] by simp
  have all: "\<forall>i < Suc n. fst (generate_daily_challenge self R now g0 user
                               (Some (Datetime (toordinal current_date + int i)))) = Inr ((c # cs) ! i)"
  proof (intro allI impI)
    fix i assume i: "i < Suc n"
    show "fst (generate_daily_challenge self R now g0 user
                 (Some (Datetime (toordinal current_date + int i)))) = Inr ((c # cs) ! i)"
    proof (cases i)
      case 0
      then show ?thesis using first by simp
    next
      case (Suc j)
      then have "j < n" using i by simp
      with a have f: "fst (generate_daily_challenge self R now g0 user
                          (Some (Datetime (toordinal ?next + int j)))) = Inr (cs ! j)" by blast
      have e: "toordinal ?next + int j = toordinal current_date + int i"
        by (simp add: Suc)
      have "(c # cs) ! i = cs ! j" by (simp add: Suc)
      with f show ?thesis unfolding e by simp
    qed
  qed
  have len: "length (c # cs) = Suc n" by (simp add: l)
  from step len all show ?case by blast
qed

lemma challenges_loop_overflow:
  assumes ok: "\<And>date g. \<exists>c g'. generate_daily_challenge self R now g user (Some date) = (Inr c, g')"
    and m: "m = nat (toordinal end_date - toordinal current_date)"
    and le: "toordinal current_date \<le> toordinal end_date"
    and lim: "day_count + int m < days_limit"
    and lo: "0 \<le> toordinal current_date"
    and last: "toordinal end_date = MAXORDINAL"
  shows "\<exists>g'. challenges_loop self R now user end_date current_date day_count challenges g
               = (Inl OverflowError, g')"
  using m le lim lo
proof (induction m arbitrary: current_date day_count challenges g)
  case 0
  then have eq: "toordinal current_date = MAXORDINAL" using last by simp
  have cond: "toordinal current_date \<le> toordinal end_date" "day_count < days_limit"
    using 0 by simp_all
  obtain c g1 where c: "generate_daily_challenge self R now g user (Some current_date) = (Inr c, g1)"
    using ok by blast
  have nx: "add_days current_date 1 = Inl OverflowError" by (simp add: add_one_day eq)
  show ?case by (subst challenges_loop.simps) (simp add: cond c nx)
next
  case (Suc m)
  have cond: "toordinal current_date \<le> toordinal end_date" "day_count < days_limit"
    using Suc.prems by simp_all
  obtain c g1 where c: "generate_daily_challenge self R now g user (Some current_date) = (Inr c, g1)"
    using ok by blast
  let ?next = "Datetime (toordinal current_date + 1)"
  have lt: "toordinal current_date < MAXORDINAL" using Suc.prems(1) last by linarith
  have nx: "add_days current_date 1 = Inr ?next" using Suc.prems(4) lt by (simp add: add_one_day)
  have m': "m = nat (toordinal end_date - toordinal ?next)" using Suc.prems(1) by simp
  have le': "toordinal ?next \<le> toordinal end_date" using Suc.prems(1) by simp
  have lim': "day_count + 1 + int m < days_limit" using Suc.prems(3) by simp
  have lo': "0 \<le> toordinal ?next" using Suc.prems(4) by simp
  from Suc.IH[OF m' le' lim' lo', of "challenges @ [c]" g1] obtain g' where
    "challenges_loop self R now user end_date ?next (day_count + 1) (challenges @ [c]) g1
     = (Inl OverflowError, g')" by blast
  then show ?case by (subst challenges_loop.simps) (simp add: cond c nx)
qed

lemma challenge_always:
  assumes "choices_in_population R" "fitness_level user \<noteq> NOT_A_MEMBER"
  shows "\<exists>c g'. generate_daily_challenge WorkoutPlanner_init R now g user (Some date) = (Inr c, g')"
  using daily_challenge_succeeds[OF assms, of now g date] by blast

lemma batch_returns_range:
  assumes R: "choices_in_population R" and lv: "fitness_level user \<noteq> NOT_A_MEMBER"
    and lo: "0 < toordinal start_date" and le: "toordinal start_date \<le> toordinal end_date"
    and hi: "toordinal end_date < MAXORDINAL
             \<or> (toordinal end_date \<le> MAXORDINAL \<and> 31 \<le> toordinal end_date - toordinal start_date)"
  shows "\<exists>cs g'. get_daily_challenges_batch WorkoutPlanner_init R now g user start_date end_date
                   = (Daily_challenges cs (int (length cs)), g')
           \<and> int (length cs) = min 31 (toordinal end_date - toordinal start_date + 1)
           \<and> (\<forall>i < length cs.
                 fst (generate_daily_challenge WorkoutPlanner_init R now g user
                        (Some (Datetime (toordinal start_date + int i)))) = Inr (cs ! i)
                 \<and> ch_date (cs ! i) = strftime_Y_m_d (Datetime (toordinal start_date + int i)))"
proof -
  let ?self = WorkoutPlanner_init
  define n where "n = nat (min (days_limit - 0) (toordinal end_date - toordinal start_date + 1))"
  have n: "int n = min 31 (toordinal end_date - toordinal start_date + 1)"
    using le by (simp add: n_def days_limit_def)
  have ok: "\<And>date g. \<exists>c g'. generate_daily_challenge ?self R now g user (Some date) = (Inr c, g')"
    using challenge_always[OF R lv] by blast
  have lo': "0 \<le> toordinal start_date" using lo by simp
  have hi': "toordinal start_date + int n \<le> MAXORDINAL" using hi n by linarith
  from challenges_loop_run[OF ok n_def lo' hi', of "[]" g g] obtain cs g' where
    r: "challenges_loop ?self R now user end_date start_date 0 [] g = (Inr ([] @ cs), g')"
    and l: "length cs = n"
    and a: "\<forall>i < n. fst (generate_daily_challenge ?self R now g user
                          (Some (Datetime (toordinal start_date + int i)))) = Inr (cs ! i)"
    by blast
  have b: "get_daily_challenges_batch ?self R now g user start_date end_date
           = (Daily_challenges cs (int (length cs)), g')"
    using le r by (simp add: get_daily_challenges_batch_def)
  have d: "\<forall>i < length cs.
             fst (generate_daily_challenge ?self R now g user
                    (Some (Datetime (toordinal start_date + int i)))) = Inr (cs ! i)
             \<and> ch_date (cs ! i) = strftime_Y_m_d (Datetime (toordinal start_date + int i))"
  proof (intro allI impI)
    fix i assume "i < length cs"
    then have i: "i < n" using l by simp
    let ?d = "Datetime (toordinal start_date + int i)"
    from a i have f: "fst (generate_daily_challenge ?self R now g user (Some ?d)) = Inr (cs ! i)"
      by blast
    from daily_challenge_succeeds[OF R lv, of now g ?d] obtain c g1 where
      "generate_daily_challenge ?self R now g user (Some ?d) = (Inr c, g1)"
      "ch_date c = strftime_Y_m_d ?d" by blast
    with f show "fst (generate_daily_challenge ?self R now g user (Some ?d)) = Inr (cs ! i)
                 \<and> ch_date (cs ! i) = strftime_Y_m_d ?d" by simp
  qed
  from b l n d show ?thesis by (metis (no_types, lifting))
qed

text \<open>
  C9. The batch endpoint is to return one challenge per calendar day from the start date
  to the end date, at most 31 of them, and \<open>batch_returns_range\<close> shows it does
  whenever the loop stays inside the calendar. When the end date is the last
  representable day, 9999-12-31, and the range has at most 31 days, the loop generates
  the challenge of that day and then advances the date past the calendar: the addition
  raises OverflowError and the endpoint answers with an error instead of the challenges.
\<close>

theorem batch_fails_on_last_calendar_day:
  assumes "choices_in_population R" and "fitness_level user \<noteq> NOT_A_MEMBER"
    and "toordinal end_date = MAXORDINAL" and "0 < toordinal start_date"
    and "toordinal start_date \<le> toordinal end_date"
    and "toordinal end_date - toordinal start_date \<le> 30"
  shows "fst (get_daily_challenges_batch WorkoutPlanner_init R now g user start_date end_date)
         = Failed OverflowError"
proof -
  let ?self = WorkoutPlanner_init
  have ok: "\<And>date g. \<exists>c g'. generate_daily_challenge ?self R now g user (Some date) = (Inr c, g')"
    using challenge_always[OF assms(1,2)] by blast
  define m where "m = nat (toordinal end_date - toordinal start_date)"
  have lim: "0 + int m < days_limit" using assms(5,6) by (simp add: m_def days_limit_def)
  have lo: "0 \<le> toordinal start_date" using assms(4) by simp
  from challenges_loop_overflow[OF ok m_def assms(5) lim lo assms(3), of "[]" g] obtain g' where
    "challenges_loop ?self R now user end_date start_date 0 [] g = (Inl OverflowError, g')"
    by blast
  then show ?thesis using assms(5) by (simp add: get_daily_challenges_batch_def)
qed

theorem batch_fails_on_last_calendar_day_witness:
  "fst (get_daily_challenges_batch WorkoutPlanner_init least_draws (Datetime 739252) 0
          example_user (Datetime 3652059) (Datetime 3652059)) = Failed OverflowError"
proof -
  have l: "fitness_level example_user \<noteq> NOT_A_MEMBER" by (simp add: example_user_def)
  show ?thesis
    by (rule batch_fails_on_last_calendar_day[OF least_draws_choices l])
       (simp_all add: MAXORDINAL_def)
qed

section \<open>How many exercises are selected\<close>

lemma round_half_even_nonneg: "0 \<le> q \<Longrightarrow> 0 \<le> round_half_even q"
  using round_half_even_ge[of q] by (simp add: order_trans[of 0 "\<lfloor>q\<rfloor>"])

lemma f64_nonneg: "0 \<le> x \<Longrightarrow> 0 \<le> f64 x"
proof (cases "x = 0")
  case True
  then show ?thesis by (simp add: f64_def)
next
  case False
  assume "0 \<le> x"
  with False have x: "0 < x" by simp
  let ?u = "pow2 (ilog2 \<bar>x\<bar> - 52)"
  have "0 \<le> \<bar>x\<bar> / ?u" using pow2_pos[of "ilog2 \<bar>x\<bar> - 52"] by simp
  then have "0 \<le> round_half_even (\<bar>x\<bar> / ?u)" by (rule round_half_even_nonneg)
  then have "0 \<le> of_int (round_half_even (\<bar>x\<bar> / ?u)) * ?u"
    using pow2_pos[of "ilog2 \<bar>x\<bar> - 52"] by (simp add: less_imp_le)
  then show ?thesis using x by (simp add: f64_def Let_def)
qed

lemma fmul_nonneg: "0 \<le> x \<Longrightarrow> 0 \<le> y \<Longrightarrow> 0 \<le> fmul x y"
  by (simp add: fmul_def f64_nonneg)

lemma fadd_nonneg: "0 \<le> x \<Longrightarrow> 0 \<le> y \<Longrightarrow> 0 \<le> fadd x y"
  by (simp add: fadd_def f64_nonneg)

lemma float_of_int_nonneg: "0 \<le> n \<Longrightarrow> 0 \<le> float_of_int n"
  by (simp add: float_of_int_def f64_nonneg)

lemma py_int_nonneg: "0 \<le> x \<Longrightarrow> 0 \<le> py_int x"
  by (simp add: py_int_def)

lemma difficulty_modifier_nonneg: "0 \<le> calculate_difficulty_modifier user"
  by (cases "fitness_level user")
     (simp_all add: calculate_difficulty_modifier_def dict_get_def Let_def fmul_nonneg f64_nonneg)

lemma num_exercises_nonneg:
  assumes "1 \<le> week" and "0 \<le> difficulty_modifier"
  shows "0 \<le> calculate_num_exercises level (calculate_progression week difficulty_modifier)"
proof -
  have w: "0 \<le> float_of_int (week - 1)" using assms(1) by (simp add: float_of_int_nonneg)
  have "0 \<le> volume_multiplier (calculate_progression week difficulty_modifier)"
    using w assms(2)
    by (simp add: calculate_progression_def Let_def fmul_nonneg fadd_nonneg f64_nonneg
        float_of_int_nonneg)
  moreover have "0 \<le> float_of_int (dict_get [(BEGINNER, 4), (INTERMEDIATE, 5), (ADVANCED, 6)] level 3)"
    by (cases level) (simp_all add: dict_get_def float_of_int_nonneg)
  ultimately show ?thesis
    by (simp add: calculate_num_exercises_def Let_def py_int_nonneg fmul_nonneg)
qed

lemma num_exercises_table:
  "calculate_num_exercises level progression
   = py_int (fmul (float_of_int (case level of BEGINNER \<Rightarrow> 4 | INTERMEDIATE \<Rightarrow> 5
                                              | ADVANCED \<Rightarrow> 6 | NOT_A_MEMBER \<Rightarrow> 3))
                  (volume_multiplier progression))"
  by (cases level) (simp_all add: calculate_num_exercises_def dict_get_def)

lemma sample_contract:
  assumes "sample_without_replacement R" and "k \<le> length pool"
  shows "length (fst (rnd_sample R g pool k)) = k
         \<and> mset (fst (rnd_sample R g pool k)) \<subseteq># mset pool
         \<and> (distinct pool \<longrightarrow> distinct (fst (rnd_sample R g pool k)))"
proof -
  let ?ys = "fst (rnd_sample R g pool k)"
  have l: "length ?ys = k" and m: "mset ?ys \<subseteq># mset pool"
    using assms by (simp_all add: sample_without_replacement_def)
  have "distinct ?ys" if d: "distinct pool"
  proof -
    have "count (mset ?ys) a \<le> 1" for a
    proof -
      have "count (mset ?ys) a \<le> count (mset pool) a" using m by (rule mset_subset_eq_count)
      also have "\<dots> \<le> 1" using d by (simp add: distinct_count_atmost_1)
      finally show ?thesis .
    qed
    then show ?thesis
      by (metis count_mset_0_iff distinct_count_atmost_1 le_neq_implies_less less_one)
  qed
  with l m show ?thesis by blast
qed

lemma generate_daily_workout_run:
  assumes pool: "workout_exercises_pool self workout_type user = Inr pool"
    and k: "k = min (calculate_num_exercises (fitness_level user) progression) (int (length pool))"
    and nn: "0 \<le> calculate_num_exercises (fitness_level user) progression"
  shows "\<exists>dw. generate_daily_workout self R g workout_type intensity user progression
               = (Inr dw, snd (rnd_sample R g pool (nat k)))
             \<and> map entry_name (dw_exercises dw) = fst (rnd_sample R g pool (nat k))"
proof -
  have s: "py_sample R g pool k
           = (Inr (fst (rnd_sample R g pool (nat k))), snd (rnd_sample R g pool (nat k)))"
    using nn k by (simp add: py_sample_def case_prod_unfold)
  obtain m where m: "duration_minutes (calculate_duration workout_type (fitness_level user)) = Inr m"
    using duration_minutes_calculate_duration by blast
  obtain es where es: "format_exercises workout_type progression m (fst (rnd_sample R g pool (nat k)))
                       = Inr es" "map entry_name es = fst (rnd_sample R g pool (nat k))"
    using format_exercises_ok by blast
  show ?thesis
    using pool s[unfolded k] m es[unfolded k]
    by (simp add: generate_daily_workout_def Let_def k)
qed

lemma generate_daily_workout_negative:
  assumes pool: "workout_exercises_pool self workout_type user = Inr pool"
    and neg: "calculate_num_exercises (fitness_level user) progression < 0"
  shows "generate_daily_workout self R g workout_type intensity user progression = (Inl ValueError, g)"
  using pool neg by (simp add: generate_daily_workout_def Let_def py_sample_def)

lemma daily_challenge_selection:
  assumes R: "choices_in_population R" and lv: "fitness_level user \<noteq> NOT_A_MEMBER"
  shows "\<exists>c pool g3 g4.
           generate_daily_challenge WorkoutPlanner_init R now g user (Some date) = (Inr c, g4)
           \<and> challenge_exercises_pool WorkoutPlanner_init (ch_type c) user = Inr pool
           \<and> pool \<noteq> []
           \<and> map entry_name (ch_exercises c)
               = fst (rnd_sample R g3 pool
                        (nat (min (challenge_exercise_count (fitness_level user))
                                  (int (length pool)))))"
proof -
  let ?self = WorkoutPlanner_init
  obtain wl where wl: "dict_item (goal_workout_mapping ?self) ''Weight Loss'' = Inr wl"
    using weight_loss_entry by blast
  define gd where "gd = dict_get (goal_workout_mapping ?self) (goal user) wl"
  have "\<exists>k. (k, gd) \<in> set (goal_workout_mapping ?self)"
  proof -
    have "(''Weight Loss'', wl) \<in> set (goal_workout_mapping ?self)"
      using wl by (auto simp: dict_item_def split: option.splits dest: map_of_SomeD)
    then show ?thesis
      using dict_get_cases[of "goal_workout_mapping ?self" "goal user" wl]
      unfolding gd_def by metis
  qed
  then obtain k where k: "(k, gd) \<in> set (goal_workout_mapping ?self)" by blast
  let ?g2 = "rnd_seed R (show_int (age user) @ format_level (fitness_level user)
                          @ strftime_Ymd date @ show_int (weekday date))"
  from init_choice[OF k R, of ?g2] obtain ws wt g3 where
    ws: "dict_items (workout_split gd) (dict_keys (workout_split gd)) = Inr ws" and
    ch: "py_choices R ?g2 (dict_keys (workout_split gd)) ws = (Inr wt, g3)" and
    wt: "wt \<in> set (dict_keys (workout_types (exercise_db ?self)))" by blast
  from challenge_exercises_pool_ok[OF wt, of user] obtain pool where
    pool: "challenge_exercises_pool ?self wt user = Inr pool" "pool \<noteq> []" by blast
  let ?k = "min (challenge_exercise_count (fitness_level user)) (int (length pool))"
  have sel: "py_sample R g3 pool ?k
             = (Inr (fst (rnd_sample R g3 pool (nat ?k))), snd (rnd_sample R g3 pool (nat ?k)))"
    by (rule challenge_sample_ok[OF pool(2)])
  obtain label where label: "level_value (fitness_level user) = Inr label"
    using lv by (cases "fitness_level user") (simp_all add: level_value_def)
  from generate_daily_challenge_run[OF wl gd_def ws ch pool(1) sel label, of now g]
  obtain c where c: "generate_daily_challenge ?self R now g user (Some date)
                     = (Inr c, snd (rnd_sample R g3 pool (nat ?k)))"
    "ch_type c = wt" "map entry_name (ch_exercises c) = fst (rnd_sample R g3 pool (nat ?k))"
    by blast
  from c pool show ?thesis by blast
qed

lemma beginner_week_one_scaled:
  "py_int (fmul (float_of_int 2)
     (volume_multiplier (calculate_progression 1
        (calculate_difficulty_modifier (example_user \<lparr> goal := ''Weight Loss'' \<rparr>))))) = 1"
  by code_simp

lemma beginner_first_challenge:
  "fst (generate_daily_challenge WorkoutPlanner_init least_draws (Datetime 739252) 0
          (example_user \<lparr> goal := ''Weight Loss'' \<rparr>) (Some (Datetime 739252)))
   = Inr \<lparr> ch_name = ''Wednesday Cardio Challenge'', ch_date = ''2025-01-01'',
           ch_day_of_week = ''Wednesday'', ch_type = ''Cardio'', ch_difficulty = ''Beginner'',
           ch_exercises = [TimedEntry ''Treadmill'' ''12 minutes'',
                           TimedEntry ''Cycling'' ''12 minutes''],
           ch_duration = ''24 minutes'',
           ch_required_equipment = [''Treadmill'', ''Stationary Bike''] \<rparr>"
  by code_simp

text \<open>
  C3 does not hold of the challenge path as it is stated. On 2025-01-01, the first day
  of week 1, a Beginner without health conditions has the volume multiplier 0.8. Twice that, truncated, is 1, yet the challenge requests 2
  exercises and returns 2.
\<close>

theorem challenge_count_not_scaled:
  "challenge_exercise_count (fitness_level (example_user \<lparr> goal := ''Weight Loss'' \<rparr>))
     \<noteq> py_int (fmul (float_of_int 2)
          (volume_multiplier (calculate_progression 1
             (calculate_difficulty_modifier (example_user \<lparr> goal := ''Weight Loss'' \<rparr>)))))
   \<and> challenge_exercise_count (fitness_level (example_user \<lparr> goal := ''Weight Loss'' \<rparr>)) = 2
   \<and> py_int (fmul (float_of_int 2)
          (volume_multiplier (calculate_progression 1
             (calculate_difficulty_modifier (example_user \<lparr> goal := ''Weight Loss'' \<rparr>))))) = 1
   \<and> (days_between (Datetime 739252) (Datetime (ymd2ord 2025 1 1)) + 1 - 1) div 7 + 1 = 1
   \<and> fst (generate_daily_challenge WorkoutPlanner_init least_draws (Datetime 739252) 0
            (example_user \<lparr> goal := ''Weight Loss'' \<rparr>) (Some (Datetime 739252)))
     = Inr \<lparr> ch_name = ''Wednesday Cardio Challenge'', ch_date = ''2025-01-01'',
             ch_day_of_week = ''Wednesday'', ch_type = ''Cardio'', ch_difficulty = ''Beginner'',
             ch_exercises = [TimedEntry ''Treadmill'' ''12 minutes'',
                             TimedEntry ''Cycling'' ''12 minutes''],
             ch_duration = ''24 minutes'',
             ch_required_equipment = [''Treadmill'', ''Stationary Bike''] \<rparr>"
proof -
  have c: "challenge_exercise_count (fitness_level (example_user \<lparr> goal := ''Weight Loss'' \<rparr>)) = 2"
    by (simp add: example_user_def challenge_exercise_count_table)
  have w: "(days_between (Datetime 739252) (Datetime (ymd2ord 2025 1 1)) + 1 - 1) div 7 + 1 = 1"
    by code_simp
  show ?thesis unfolding c using beginner_week_one_scaled beginner_first_challenge w by simp
qed

text \<open>
  C3, as the code has it. The weekly path requests \<open>int(base * volume_multiplier)\<close>
  exercises with the base count 4, 5 or 6 of the fitness level (3 outside the
  enumeration), which is not negative from week 1 on. The challenge path requests the
  base count of its own table, 2, 3 or 4 (2 outside the enumeration), and does not
  multiply it by the volume multiplier. Each path passes the pool and
  \<open>min(count, len(pool))\<close> to \<open>random.sample\<close>, so the selection is that many
  exercises from distinct positions of the pool; a negative weekly count makes
  \<open>random.sample\<close> raise ValueError.
\<close>

theorem exercise_counts:
  "calculate_num_exercises level progression
     = py_int (fmul (float_of_int (case level of BEGINNER \<Rightarrow> 4 | INTERMEDIATE \<Rightarrow> 5
                                                | ADVANCED \<Rightarrow> 6 | NOT_A_MEMBER \<Rightarrow> 3))
                    (volume_multiplier progression))
   \<and> challenge_exercise_count level
     = (case level of BEGINNER \<Rightarrow> 2 | INTERMEDIATE \<Rightarrow> 3 | ADVANCED \<Rightarrow> 4 | NOT_A_MEMBER \<Rightarrow> 2)
   \<and> (1 \<le> week \<longrightarrow>
        0 \<le> calculate_num_exercises level
               (calculate_progression week (calculate_difficulty_modifier user)))
   \<and> (workout_exercises_pool self workout_type user = Inr pool
        \<and> 0 \<le> calculate_num_exercises (fitness_level user) progression
      \<longrightarrow> (\<exists>dw g'. generate_daily_workout self R g workout_type intensity user progression
                       = (Inr dw, g')
             \<and> map entry_name (dw_exercises dw)
                 = fst (rnd_sample R g pool
                          (nat (min (calculate_num_exercises (fitness_level user) progression)
                                    (int (length pool)))))
             \<and> (sample_without_replacement R \<longrightarrow>
                   int (length (dw_exercises dw))
                     = min (calculate_num_exercises (fitness_level user) progression)
                           (int (length pool))
                   \<and> mset (map entry_name (dw_exercises dw)) \<subseteq># mset pool
                   \<and> (distinct pool \<longrightarrow> distinct (map entry_name (dw_exercises dw))))))
   \<and> (workout_exercises_pool self workout_type user = Inr pool
        \<and> calculate_num_exercises (fitness_level user) progression < 0
      \<longrightarrow> generate_daily_workout self R g workout_type intensity user progression
            = (Inl ValueError, g))
   \<and> (choices_in_population R \<and> fitness_level user \<noteq> NOT_A_MEMBER
      \<longrightarrow> (\<exists>c cpool g3 g4.
             generate_daily_challenge WorkoutPlanner_init R now g user (Some date) = (Inr c, g4)
             \<and> challenge_exercises_pool WorkoutPlanner_init (ch_type c) user = Inr cpool
             \<and> map entry_name (ch_exercises c)
                 = fst (rnd_sample R g3 cpool
                          (nat (min (challenge_exercise_count (fitness_level user))
                                    (int (length cpool)))))
             \<and> (sample_without_replacement R \<longrightarrow>
                   int (length (ch_exercises c))
                     = min (challenge_exercise_count (fitness_level user)) (int (length cpool))
                   \<and> mset (map entry_name (ch_exercises c)) \<subseteq># mset cpool
                   \<and> (distinct cpool \<longrightarrow> distinct (map entry_name (ch_exercises c))))))"
proof (intro conjI impI)
  show "calculate_num_exercises level progression
     = py_int (fmul (float_of_int (case level of BEGINNER \<Rightarrow> 4 | INTERMEDIATE \<Rightarrow> 5
                                                | ADVANCED \<Rightarrow> 6 | NOT_A_MEMBER \<Rightarrow> 3))
                    (volume_multiplier progression))"
    by (rule num_exercises_table)
  show "challenge_exercise_count level
     = (case level of BEGINNER \<Rightarrow> 2 | INTERMEDIATE \<Rightarrow> 3 | ADVANCED \<Rightarrow> 4 | NOT_A_MEMBER \<Rightarrow> 2)"
    by (rule challenge_exercise_count_table)
  show "0 \<le> calculate_num_exercises level
               (calculate_progression week (calculate_difficulty_modifier user))"
    if "1 \<le> week"
    by (rule num_exercises_nonneg[OF that difficulty_modifier_nonneg])
next
  let ?num = "calculate_num_exercises (fitness_level user) progression"
  let ?k = "min ?num (int (length pool))"
  assume a: "workout_exercises_pool self workout_type user = Inr pool \<and> 0 \<le> ?num"
  from generate_daily_workout_run[OF conjunct1[OF a] refl conjunct2[OF a], of R g intensity]
  obtain dw where dw:
    "generate_daily_workout self R g workout_type intensity user progression
     = (Inr dw, snd (rnd_sample R g pool (nat ?k)))"
    "map entry_name (dw_exercises dw) = fst (rnd_sample R g pool (nat ?k))" by blast
  have k: "nat ?k \<le> length pool" "int (nat ?k) = ?k" using a by simp_all
  have "sample_without_replacement R \<longrightarrow>
          int (length (dw_exercises dw)) = ?k
          \<and> mset (map entry_name (dw_exercises dw)) \<subseteq># mset pool
          \<and> (distinct pool \<longrightarrow> distinct (map entry_name (dw_exercises dw)))"
  proof
    assume s: "sample_without_replacement R"
    from sample_contract[OF s k(1), of g]
    have "length (map entry_name (dw_exercises dw)) = nat ?k"
      "mset (map entry_name (dw_exercises dw)) \<subseteq># mset pool"
      "distinct pool \<longrightarrow> distinct (map entry_name (dw_exercises dw))"
      unfolding dw(2) by blast+
    then show "int (length (dw_exercises dw)) = ?k
          \<and> mset (map entry_name (dw_exercises dw)) \<subseteq># mset pool
          \<and> (distinct pool \<longrightarrow> distinct (map entry_name (dw_exercises dw)))"
      using k(2) by (metis length_map)
  qed
  with dw show "\<exists>dw g'. generate_daily_workout self R g workout_type intensity user progression
                       = (Inr dw, g')
             \<and> map entry_name (dw_exercises dw) = fst (rnd_sample R g pool (nat ?k))
             \<and> (sample_without_replacement R \<longrightarrow>
                   int (length (dw_exercises dw)) = ?k
                   \<and> mset (map entry_name (dw_exercises dw)) \<subseteq># mset pool
                   \<and> (distinct pool \<longrightarrow> distinct (map entry_name (dw_exercises dw))))"
    by blast
next
  assume a: "workout_exercises_pool self workout_type user = Inr pool
             \<and> calculate_num_exercises (fitness_level user) progression < 0"
  show "generate_daily_workout self R g workout_type intensity user progression
        = (Inl ValueError, g)"
    by (rule generate_daily_workout_negative[OF conjunct1[OF a] conjunct2[OF a]])
next
  let ?cnt = "challenge_exercise_count (fitness_level user)"
  assume a: "choices_in_population R \<and> fitness_level user \<noteq> NOT_A_MEMBER"
  from daily_challenge_selection[OF conjunct1[OF a] conjunct2[OF a], of now g date]
  obtain c cpool g3 g4 where c:
    "generate_daily_challenge WorkoutPlanner_init R now g user (Some date) = (Inr c, g4)"
    "challenge_exercises_pool WorkoutPlanner_init (ch_type c) user = Inr cpool"
    "cpool \<noteq> []"
    "map entry_name (ch_exercises c)
     = fst (rnd_sample R g3 cpool (nat (min ?cnt (int (length cpool)))))" by blast
  let ?k = "min ?cnt (int (length cpool))"
  have "0 \<le> ?cnt" by (cases "fitness_level user") (simp_all add: challenge_exercise_count_table)
  then have k: "nat ?k \<le> length cpool" "int (nat ?k) = ?k" by simp_all
  have "sample_without_replacement R \<longrightarrow>
          int (length (ch_exercises c)) = ?k
          \<and> mset (map entry_name (ch_exercises c)) \<subseteq># mset cpool
          \<and> (distinct cpool \<longrightarrow> distinct (map entry_name (ch_exercises c)))"
  proof
    assume s: "sample_without_replacement R"
    from sample_contract[OF s k(1), of g3]
    have "length (map entry_name (ch_exercises c)) = nat ?k"
      "mset (map entry_name (ch_exercises c)) \<subseteq># mset cpool"
      "distinct cpool \<longrightarrow> distinct (map entry_name (ch_exercises c))"
      unfolding c(4) by blast+
    then show "int (length (ch_exercises c)) = ?k
          \<and> mset (map entry_name (ch_exercises c)) \<subseteq># mset cpool
          \<and> (distinct cpool \<longrightarrow> distinct (map entry_name (ch_exercises c)))"
      using k(2) by (metis length_map)
  qed
  with c(1,2,4) show "\<exists>c cpool g3 g4.
             generate_daily_challenge WorkoutPlanner_init R now g user (Some date) = (Inr c, g4)
             \<and> challenge_exercises_pool WorkoutPlanner_init (ch_type c) user = Inr cpool
             \<and> map entry_name (ch_exercises c)
                 = fst (rnd_sample R g3 cpool (nat (min ?cnt (int (length cpool)))))
             \<and> (sample_without_replacement R \<longrightarrow>
                   int (length (ch_exercises c)) = min ?cnt (int (length cpool))
                   \<and> mset (map entry_name (ch_exercises c)) \<subseteq># mset cpool
                   \<and> (distinct cpool \<longrightarrow> distinct (map entry_name (ch_exercises c))))"
    by blast
qed

theorem exercise_counts_witness:
  "0 \<le> calculate_num_exercises BEGINNER
          (calculate_progression 1 (calculate_difficulty_modifier example_user))
   \<and> (\<exists>c cpool g4.
        generate_daily_challenge WorkoutPlanner_init least_draws (Datetime 739252) 0 example_user
          (Some (Datetime 739252)) = (Inr c, g4)
        \<and> challenge_exercises_pool WorkoutPlanner_init (ch_type c) example_user = Inr cpool
        \<and> int (length (ch_exercises c)) = min 2 (int (length cpool)))"
proof -
  have l: "fitness_level example_user \<noteq> NOT_A_MEMBER" by (simp add: example_user_def)
  have cnt: "challenge_exercise_count (fitness_level example_user) = 2"
    by (simp add: example_user_def challenge_exercise_count_table)
  note t = exercise_counts[of BEGINNER "calculate_progression 1 1" 1 example_user
      WorkoutPlanner_init "''Cardio''" "[]" least_draws 0 "''easy''" "Datetime 739252"
      "Datetime 739252"]
  have a: "0 \<le> calculate_num_exercises BEGINNER
                 (calculate_progression 1 (calculate_difficulty_modifier example_user))"
    using t by simp
  from t least_draws_choices l obtain c cpool g3 g4 where
    "generate_daily_challenge WorkoutPlanner_init least_draws (Datetime 739252) 0 example_user
       (Some (Datetime 739252)) = (Inr c, g4)"
    "challenge_exercises_pool WorkoutPlanner_init (ch_type c) example_user = Inr cpool"
    "map entry_name (ch_exercises c)
     = fst (rnd_sample least_draws g3 cpool
              (nat (min (challenge_exercise_count (fitness_level example_user))
                        (int (length cpool)))))"
    "sample_without_replacement least_draws \<longrightarrow>
       int (length (ch_exercises c))
         = min (challenge_exercise_count (fitness_level example_user)) (int (length cpool))
       \<and> mset (map entry_name (ch_exercises c)) \<subseteq># mset cpool
       \<and> (distinct cpool \<longrightarrow> distinct (map entry_name (ch_exercises c)))"
    by blast
  with least_draws_sample cnt a show ?thesis by auto
qed

end
